theory Spec2Isabelle
  imports Complex_Main "HOL-Library.Word"
begin

section \<open>The chat widget of js/src/chat/chat.ts\<close>

text \<open>
  The source file holds two revisions of \<^verbatim>\<open>chat.ts\<close>. The first has the audio capture
  of \<^verbatim>\<open>ChatInput\<close>; the second has the message actions of \<^verbatim>\<open>ChatMessage\<close> and
  forwards the container's \<^verbatim>\<open>message-actions\<close> attribute to every message it creates.
  The transcript functions of \<^verbatim>\<open>ChatContainer\<close> and the text path of \<^verbatim>\<open>ChatInput\<close> are
  the same text in both. The model below is their union: with \<open>messageActions = ''''\<close>
  the container behaves as in the first revision.

  The widget is single threaded: every handler runs to completion. A handler is a
  function from the state of the widget to its next state. What leaves the widget
  (calls of \<^verbatim>\<open>Shiny.setInputValue\<close>, custom events nobody in the file listens to) is
  appended to a log kept in the state. The widget is modelled attached to a page
  where \<^verbatim>\<open>window.Shiny\<close> exists and where the container's listeners are registered, so
  that \<^verbatim>\<open>dispatchEvent\<close> of an event the container listens to is a call of its handler.
\<close>

subsection \<open>Strings of the host language\<close>

text \<open>
  A string of the host language is a sequence of UTF-16 code units. The text the
  widget handles (what is typed, said, shown and sent) is modelled so. The names the
  code only compares with its own literals or passes on (ids, attribute names, classes,
  encodings, modes) are byte strings. \<open>utf16\<close> gives the code units of a literal made
  of ASCII characters.
\<close>

type_synonym js_string = "16 word list"

definition utf16 :: "string \<Rightarrow> js_string" where
  "utf16 s = map of_char s"

text \<open>
  \<^verbatim>\<open>String.prototype.trim\<close> removes white space and line terminators from both ends:
  tab, line feed, vertical tab, form feed, carriage return, the byte order mark U+FEFF,
  the line and paragraph separators U+2028 and U+2029, and the space separators of
  Unicode, which are U+0020, U+00A0, U+1680, U+2000 to U+200A, U+202F, U+205F and
  U+3000. Each of them is one code unit.
\<close>

definition isWhiteSpace :: "16 word \<Rightarrow> bool" where
  "isWhiteSpace c =
     (c \<in> set [0x0009, 0x000A, 0x000B, 0x000C, 0x000D, 0x0020, 0x00A0, 0x1680,
               0x2000, 0x2001, 0x2002, 0x2003, 0x2004, 0x2005, 0x2006, 0x2007, 0x2008,
               0x2009, 0x200A, 0x2028, 0x2029, 0x202F, 0x205F, 0x3000, 0xFEFF])"

definition trim :: "js_string \<Rightarrow> js_string" where
  "trim s = rev (dropWhile isWhiteSpace (rev (dropWhile isWhiteSpace s)))"

text \<open>\<^verbatim>\<open>a || b\<close> on strings of which the first may be missing: an empty string is falsy.\<close>

fun or_else :: "'a list option \<Rightarrow> 'a list \<Rightarrow> 'a list" where
  "or_else None d = d"
| "or_else (Some v) d = (if v = [] then d else v)"

text \<open>\<^verbatim>\<open>x + s\<close> where \<^verbatim>\<open>x\<close> is a string or \<^verbatim>\<open>null\<close>: \<^verbatim>\<open>null\<close> is converted to its name.\<close>

fun concat_nullable :: "js_string option \<Rightarrow> js_string \<Rightarrow> js_string" where
  "concat_nullable None s = utf16 ''null'' @ s"
| "concat_nullable (Some v) s = v @ s"

subsection \<open>Messages and message elements\<close>

datatype role = User | Assistant

datatype chunk_type = MessageStart | MessageEnd

datatype content_type = Markdown | Html | Text | SemiMarkdown

datatype operation = Append

datatype feedback = Positive | Negative

text \<open>
  \<^verbatim>\<open>type Message\<close>. A key that is \<^verbatim>\<open>null\<close> or absent is \<open>None\<close>: the detail of the
  \<^verbatim>\<open>shiny-chat-input-sent\<close> event has \<^verbatim>\<open>content\<close> and \<^verbatim>\<open>role\<close> only.
\<close>

record message =
  content :: js_string
  role :: role
  chunk_type :: "chunk_type option"
  content_type :: "content_type option"
  icon :: "string option"
  operation :: "operation option"

text \<open>
  A \<^verbatim>\<open>shiny-chat-message\<close> element: its attributes, and the one piece of private state of
  \<^verbatim>\<open>ChatMessage\<close> the model needs, \<^verbatim>\<open>_feedbackGiven\<close>. \<open>attr_role\<close> is the plain \<^verbatim>\<open>role\<close>
  attribute, which only the loading message gets and which no property reads.
\<close>

record chat_message =
  attr_content :: "js_string option"
  attr_data_role :: "role option"
  attr_role :: "string option"
  attr_chunk_type :: "chunk_type option"
  attr_content_type :: "content_type option"
  attr_icon :: "string option"
  attr_operation :: "operation option"
  attr_message_actions :: "string option"
  attr_streaming :: bool
  feedbackGiven :: "feedback option"

text \<open>\<^verbatim>\<open>document.createElement\<close>: no attribute, every property at its default.\<close>

definition new_chat_message :: chat_message where
  "new_chat_message =
     \<lparr>attr_content = None, attr_data_role = None, attr_role = None, attr_chunk_type = None,
      attr_content_type = None, attr_icon = None, attr_operation = None,
      attr_message_actions = None, attr_streaming = False, feedbackGiven = None\<rparr>"

text \<open>
  The properties \<^verbatim>\<open>content\<close> and \<^verbatim>\<open>role\<close> of \<^verbatim>\<open>ChatMessage\<close> follow the attributes
  \<^verbatim>\<open>content\<close> and \<^verbatim>\<open>data-role\<close>; without the attribute they keep their initial values
  \<^verbatim>\<open>"..."\<close> and \<^verbatim>\<open>"assistant"\<close>.
\<close>

definition content_prop :: "chat_message \<Rightarrow> js_string" where
  "content_prop el = (case attr_content el of None \<Rightarrow> utf16 ''...'' | Some c \<Rightarrow> c)"

definition role_prop :: "chat_message \<Rightarrow> role" where
  "role_prop el = (case attr_data_role el of None \<Rightarrow> Assistant | Some r \<Rightarrow> r)"

text \<open>\<^verbatim>\<open>type MessageAttrs\<close>: a message with \<^verbatim>\<open>role\<close> renamed and \<^verbatim>\<open>message_actions\<close> added.\<close>

record message_attrs =
  ma_content :: js_string
  ma_data_role :: role
  ma_chunk_type :: "chunk_type option"
  ma_content_type :: "content_type option"
  ma_icon :: "string option"
  ma_operation :: "operation option"
  ma_message_actions :: "string option"

text \<open>
  Modelled from the spec: \<^verbatim>\<open>createElement\<close> of \<^verbatim>\<open>../utils/_utils\<close>, which is not among
  the sources. The spec has \<^verbatim>\<open>append\<close> insert the message at the tail, and the source
  says that the message's keys create the custom element's attributes: the element
  gets one attribute per key whose value is not \<^verbatim>\<open>null\<close>, named as the key with \<^verbatim>\<open>_\<close>
  written \<^verbatim>\<open>-\<close>.
\<close>

definition createElement :: "message_attrs \<Rightarrow> chat_message" where
  "createElement a =
     new_chat_message
       \<lparr>attr_content := Some (ma_content a),
        attr_data_role := Some (ma_data_role a),
        attr_chunk_type := ma_chunk_type a,
        attr_content_type := ma_content_type a,
        attr_icon := ma_icon a,
        attr_operation := ma_operation a,
        attr_message_actions := ma_message_actions a\<rparr>"

text \<open>The same call on the literal \<^verbatim>\<open>{content: "", role: "assistant"}\<close>.\<close>

definition createElement_loading :: chat_message where
  "createElement_loading =
     new_chat_message \<lparr>attr_content := Some [], attr_role := Some ''assistant''\<rparr>"

subsection \<open>What leaves the widget\<close>

record audio_input_data =
  audio :: "nat list"
  format :: string
  duration :: rat
  size_bytes :: nat

record feedback_event =
  messageIndex :: int
  fe_content :: js_string
  fe_feedback :: feedback

datatype shiny_value =
  TextValue js_string
| AudioValue audio_input_data
| FeedbackValue feedback_event

datatype custom_event =
  AudioInputEvent audio_input_data
| MessageFeedbackEvent feedback_event

subsection \<open>Platform objects of the audio capture\<close>

text \<open>A \<^verbatim>\<open>Blob\<close>: its bytes and its type.\<close>

record blob =
  blob_bytes :: "nat list"
  blob_type :: string

definition blob_size :: "blob \<Rightarrow> nat" where
  "blob_size b = length (blob_bytes b)"

text \<open>\<^verbatim>\<open>new Blob(chunks, {type})\<close>.\<close>

definition new_Blob :: "blob list \<Rightarrow> string \<Rightarrow> blob" where
  "new_Blob chunks ty = \<lparr>blob_bytes = concat (map blob_bytes chunks), blob_type = ty\<rparr>"

text \<open>
  The two functions the source assigns to \<^verbatim>\<open>MediaRecorder.onstop\<close>: the one of
  \<^verbatim>\<open>#startRecording\<close>, which releases the microphone, and the one of \<^verbatim>\<open>#stopRecording\<close>,
  which also hands the recording off and closes over the duration computed at the stop.
\<close>

datatype onstop_handler = ReleaseOnly | ReleaseAndSend rat

datatype recorder_state = Recording | Stopping | Inactive

text \<open>
  A \<^verbatim>\<open>MediaRecorder\<close> with the stream it was made on: its encoding, the function its
  \<^verbatim>\<open>onstop\<close> holds, where it is in its life, and whether the tracks of its stream are
  live. \<open>Stopping\<close> is the time between the call of \<^verbatim>\<open>stop()\<close> and the \<^verbatim>\<open>stop\<close> event the
  platform fires for it, after the last \<^verbatim>\<open>dataavailable\<close> event; \<open>Inactive\<close> is the time
  after that event.
\<close>

record media_recorder =
  mimeType :: string
  onstop :: onstop_handler
  rec_state :: recorder_state
  tracks_live :: bool

record speech_recognition =
  sr_continuous :: bool
  sr_interimResults :: bool
  sr_lang :: string

subsection \<open>The state of the widget\<close>

text \<open>
  One container with its input. \<open>messages\<close> are the children of the
  \<^verbatim>\<open>shiny-chat-messages\<close> element; \<open>iconAssistant\<close> and \<open>messageActions\<close> are the
  attributes of the container; \<open>input_id\<close> is the id of the input; \<open>disabled\<close> is its
  \<^verbatim>\<open>_disabled\<close>; \<open>textarea_value\<close> is the value of its textarea, \<open>textarea_focused\<close> says
  that \<^verbatim>\<open>focus()\<close> was called on it, \<open>button_disabled\<close> is the \<^verbatim>\<open>disabled\<close> of the send
  button. The fields of the audio capture have the names of the source without the
  underscore. \<open>recorders\<close> are the \<^verbatim>\<open>MediaRecorder\<close> objects the widget has made, in the
  order of their making: an object lives on with its handlers after the field has let
  go of it. \<open>mediaRecorder\<close> is the position in \<open>recorders\<close> of the object the field
  \<^verbatim>\<open>_mediaRecorder\<close> holds. \<open>getUserMedia_pending\<close> counts the calls of \<^verbatim>\<open>getUserMedia\<close>
  that have not settled yet, each with a \<^verbatim>\<open>#startRecording\<close> waiting on it.
  \<open>recordingTimer\<close> says that the field \<^verbatim>\<open>_recordingTimer\<close> holds a handle and \<open>intervals\<close>
  counts the interval timers that are set: the field keeps the last handle only.
  \<open>recognition_starts\<close> counts the calls of \<^verbatim>\<open>start()\<close> on a recogniser. \<open>shiny_inputs\<close>
  are the calls of \<^verbatim>\<open>Shiny.setInputValue\<close>, in order, and \<open>dispatched\<close> the custom events
  that leave the input or a message, in order.
\<close>

record chat =
  messages :: "chat_message list"
  iconAssistant :: string
  messageActions :: string
  input_id :: string
  disabled :: bool
  textarea_value :: js_string
  textarea_focused :: bool
  button_disabled :: bool
  audioInputMode :: string
  isRecording :: bool
  recordingDuration :: int
  recorders :: "media_recorder list"
  mediaRecorder :: "nat option"
  getUserMedia_pending :: nat
  audioChunks :: "blob list"
  recordingStartTime :: int
  recordingTimer :: bool
  intervals :: nat
  speechRecognition :: "speech_recognition option"
  recognition_starts :: nat
  finalTranscript :: js_string
  transcribedText :: js_string
  shiny_inputs :: "(string \<times> shiny_value) list"
  dispatched :: "custom_event list"

datatype js_error = Error string

subsection \<open>ChatInput: the text path\<close>

definition valueIsEmpty :: "chat \<Rightarrow> bool" where
  "valueIsEmpty s = (length (trim (textarea_value s)) = 0)"

text \<open>\<^verbatim>\<open>#onInput\<close>; \<^verbatim>\<open>#updateHeight\<close> only touches the layout.\<close>

definition onInput :: "chat \<Rightarrow> chat" where
  "onInput s = s\<lparr>button_disabled := (if disabled s then True else valueIsEmpty s)\<rparr>"

text \<open>The setter of \<^verbatim>\<open>disabled\<close>.\<close>

definition set_disabled :: "bool \<Rightarrow> chat \<Rightarrow> chat" where
  "set_disabled v s = (if v = disabled s then s else onInput (s\<lparr>disabled := v\<rparr>))"

definition textarea_focus :: "chat \<Rightarrow> chat" where
  "textarea_focus s = s\<lparr>textarea_focused := True\<rparr>"

subsection \<open>ChatContainer: the transcript\<close>

text \<open>\<^verbatim>\<open>lastMessage\<close> is \<^verbatim>\<open>null\<close> on an empty transcript, and \<^verbatim>\<open>!content\<close> is then true.\<close>

definition removeLoadingMessage :: "chat \<Rightarrow> chat" where
  "removeLoadingMessage s =
     (case messages s of
        [] \<Rightarrow> s
      | _ # _ \<Rightarrow>
          if content_prop (last (messages s)) = [] then s\<lparr>messages := butlast (messages s)\<rparr>
          else s)"

definition finalizeMessage :: "chat \<Rightarrow> chat" where
  "finalizeMessage s = set_disabled False s"

definition initMessage :: "chat \<Rightarrow> chat" where
  "initMessage s =
     (let s1 = removeLoadingMessage s
      in if \<not> disabled s1 then set_disabled True s1 else s1)"

text \<open>
  The element \<^verbatim>\<open>#appendMessage\<close> creates: the default icon of the container goes to an
  assistant message without an icon of its own, and the container's \<^verbatim>\<open>message-actions\<close>
  to every message.
\<close>

definition message_element :: "chat \<Rightarrow> message \<Rightarrow> chat_message" where
  "message_element s m =
     (let rest_icon =
            (if role m = Assistant \<and> iconAssistant s \<noteq> []
             then Some (or_else (icon m) (iconAssistant s))
             else icon m);
          messageAttrs =
            \<lparr>ma_content = content m, ma_data_role = role m, ma_chunk_type = chunk_type m,
             ma_content_type = content_type m, ma_icon = rest_icon,
             ma_operation = operation m,
             ma_message_actions =
               (if messageActions s \<noteq> [] then Some (messageActions s) else None)\<rparr>
      in createElement messageAttrs)"

definition appendMessage :: "chat \<Rightarrow> message \<Rightarrow> bool \<Rightarrow> chat" where
  "appendMessage s m finalize =
     (let s1 = initMessage s;
          s2 = s1\<lparr>messages := messages s1 @ [message_element s1 m]\<rparr>
      in if finalize then finalizeMessage s2 else s2)"

definition addLoadingMessage :: "chat \<Rightarrow> chat" where
  "addLoadingMessage s = s\<lparr>messages := messages s @ [createElement_loading]\<rparr>"

text \<open>The detail of the \<^verbatim>\<open>shiny-chat-input-sent\<close> event: \<^verbatim>\<open>{content: this.value, role: "user"}\<close>.\<close>

definition input_sent_detail :: "js_string \<Rightarrow> message" where
  "input_sent_detail v =
     \<lparr>content = v, role = User, chunk_type = None, content_type = None, icon = None,
      operation = None\<rparr>"

definition onInputSent :: "chat \<Rightarrow> message \<Rightarrow> chat" where
  "onInputSent s detail = addLoadingMessage (appendMessage s detail True)"

definition onAppend :: "chat \<Rightarrow> message \<Rightarrow> chat" where
  "onAppend s detail = appendMessage s detail True"

text \<open>
  \<^verbatim>\<open>#appendMessageChunk\<close>. The \<^verbatim>\<open>throw\<close> is the left injection, with the state as it
  is at the throw: nothing is rolled back.
\<close>

definition set_last :: "(chat_message \<Rightarrow> chat_message) \<Rightarrow> chat \<Rightarrow> chat" where
  "set_last f s = s\<lparr>messages := butlast (messages s) @ [f (last (messages s))]\<rparr>"

definition appendMessageChunk :: "chat \<Rightarrow> message \<Rightarrow> (js_error \<times> chat) + chat" where
  "appendMessageChunk s m =
     (let s1 = (if chunk_type m = Some MessageStart then appendMessage s m False else s)
      in case messages s1 of
           [] \<Rightarrow> Inl (Error ''No messages found in the chat output'', s1)
         | _ # _ \<Rightarrow>
             if chunk_type m = Some MessageStart
             then Inr (set_last (\<lambda>el. el\<lparr>attr_streaming := True\<rparr>) s1)
             else
               let lastMessage = last (messages s1);
                   c = (if operation m = Some Append
                        then concat_nullable (attr_content lastMessage) (content m)
                        else content m);
                   s2 = set_last (\<lambda>el. el\<lparr>attr_content := Some c\<rparr>) s1
               in if chunk_type m = Some MessageEnd
                  then Inr (finalizeMessage (set_last (\<lambda>el. el\<lparr>attr_streaming := False\<rparr>) s2))
                  else Inr s2)"

definition onAppendChunk :: "chat \<Rightarrow> message \<Rightarrow> (js_error \<times> chat) + chat" where
  "onAppendChunk s detail = appendMessageChunk s detail"

definition onClear :: "chat \<Rightarrow> chat" where
  "onClear s = s\<lparr>messages := []\<rparr>"

definition onRemoveLoadingMessage :: "chat \<Rightarrow> chat" where
  "onRemoveLoadingMessage s = finalizeMessage (removeLoadingMessage s)"

subsection \<open>ChatInput: sending the value\<close>

text \<open>
  \<^verbatim>\<open>setInputValue\<close> and \<^verbatim>\<open>#sendInput\<close> call each other. \<^verbatim>\<open>dispatchEvent\<close> of
  \<^verbatim>\<open>shiny-chat-input-sent\<close> runs the container's \<^verbatim>\<open>#onInputSent\<close> before it returns, and
  \<^verbatim>\<open>dispatchEvent\<close> of the \<^verbatim>\<open>input\<close> event on the textarea runs \<^verbatim>\<open>#onInput\<close>.
  \<^verbatim>\<open>if (oldValue)\<close> is true of a string that is not empty.
\<close>

function setInputValue :: "chat \<Rightarrow> js_string \<Rightarrow> bool \<Rightarrow> bool \<Rightarrow> chat"
  and sendInput :: "bool \<Rightarrow> chat \<Rightarrow> chat" where
  "setInputValue s v False focus =
     (let s1 = onInput (s\<lparr>textarea_value := v\<rparr>)
      in if focus then textarea_focus s1 else s1)"
| "setInputValue s v True focus =
     (let oldValue = textarea_value s;
          s1 = onInput (s\<lparr>textarea_value := v\<rparr>);
          s2 = sendInput False s1;
          s3 = (if oldValue \<noteq> [] then setInputValue s2 oldValue False False else s2)
      in if focus then textarea_focus s3 else s3)"
| "sendInput focus s =
     (if valueIsEmpty s then s
      else if disabled s then s
      else
        let s1 = s\<lparr>shiny_inputs :=
                     shiny_inputs s @ [(input_id s, TextValue (textarea_value s))]\<rparr>;
            s2 = onInputSent s1 (input_sent_detail (textarea_value s1));
            s3 = setInputValue s2 [] False False;
            s4 = set_disabled True s3
        in if focus then textarea_focus s4 else s4)"
  by pat_completeness auto
termination
  by (relation "measure (\<lambda>x. case x of
                   Inl (s, v, submit, focus) \<Rightarrow> (if submit then 2 else 0)
                 | Inr (focus, s) \<Rightarrow> 1)") auto

text \<open>
  \<^verbatim>\<open>#onUpdateUserInput\<close>: the keys of the detail may be absent; an absent \<^verbatim>\<open>submit\<close> or
  \<^verbatim>\<open>focus\<close> takes the default \<^verbatim>\<open>false\<close> of \<^verbatim>\<open>setInputValue\<close>. The placeholder text is
  not part of the model.
\<close>

definition onUpdateUserInput :: "chat \<Rightarrow> js_string option \<Rightarrow> bool option \<Rightarrow> bool option \<Rightarrow> chat" where
  "onUpdateUserInput s v submit focus =
     (case v of
        None \<Rightarrow> s
      | Some x \<Rightarrow> setInputValue s x (submit = Some True) (focus = Some True))"

subsection \<open>ChatContainer: suggestions\<close>

text \<open>
  What \<^verbatim>\<open>#getSuggestion\<close> reads of an element. The target of an event is given by the
  chain of its inclusive ancestors, itself first; the chain is empty when the target is
  \<^verbatim>\<open>null\<close> or no element. \<open>key\<close> is read of a keyboard event only.
\<close>

record dom_element =
  is_HTMLElement :: bool
  classList :: "string list"
  data_suggestion :: "js_string option"
  data_suggestion_submit :: "string option"
  textContent :: js_string

record ui_event =
  target :: "dom_element list"
  key :: string
  metaKey :: bool
  ctrlKey :: bool
  altKey :: bool

text \<open>\<^verbatim>\<open>x.closest(".suggestion, [data-suggestion]")\<close>.\<close>

definition closest_suggestion :: "dom_element list \<Rightarrow> dom_element option" where
  "closest_suggestion chain =
     find (\<lambda>el. ''suggestion'' \<in> set (classList el) \<or> data_suggestion el \<noteq> None) chain"

record suggestion_result =
  suggestion :: "js_string option"
  submit :: "bool option"

definition getSuggestion :: "dom_element list \<Rightarrow> suggestion_result" where
  "getSuggestion x =
     (case x of
        [] \<Rightarrow> \<lparr>suggestion = None, submit = None\<rparr>
      | x0 # _ \<Rightarrow>
          if \<not> is_HTMLElement x0 then \<lparr>suggestion = None, submit = None\<rparr>
          else
            case closest_suggestion x of
              None \<Rightarrow> \<lparr>suggestion = None, submit = None\<rparr>
            | Some el \<Rightarrow>
                if \<not> is_HTMLElement el then \<lparr>suggestion = None, submit = None\<rparr>
                else if \<not> (''suggestion'' \<in> set (classList el) \<or> data_suggestion el \<noteq> None)
                then \<lparr>suggestion = None, submit = None\<rparr>
                else
                  let sg = or_else (data_suggestion el) (textContent el)
                  in \<lparr>suggestion = (if sg = [] then None else Some sg),
                      submit = Some (''submit'' \<in> set (classList el) \<or>
                                     data_suggestion_submit el = Some [] \<or>
                                     data_suggestion_submit el = Some ''true'')\<rparr>)"

text \<open>
  \<^verbatim>\<open>#onInputSuggestionEvent\<close>. \<^verbatim>\<open>shouldSubmit\<close> has the type of \<^verbatim>\<open>submit\<close>, which may be
  \<^verbatim>\<open>undefined\<close>: \<^verbatim>\<open>setInputValue\<close> then takes its default \<^verbatim>\<open>false\<close>, and \<^verbatim>\<open>!shouldSubmit\<close> is
  \<^verbatim>\<open>true\<close>. \<^verbatim>\<open>e.preventDefault()\<close> acts on the event only.
\<close>

definition shouldSubmit :: "ui_event \<Rightarrow> bool option \<Rightarrow> bool option" where
  "shouldSubmit e sub =
     (if metaKey e \<or> ctrlKey e then Some True else if altKey e then Some False else sub)"

definition onInputSuggestionEvent :: "chat \<Rightarrow> ui_event \<Rightarrow> chat" where
  "onInputSuggestionEvent s e =
     (let r = getSuggestion (target e)
      in case suggestion r of
           None \<Rightarrow> s
         | Some sg \<Rightarrow>
             let sh = shouldSubmit e (submit r)
             in setInputValue s sg (sh = Some True) (\<not> (sh = Some True)))"

definition onInputSuggestionClick :: "chat \<Rightarrow> ui_event \<Rightarrow> chat" where
  "onInputSuggestionClick s e = onInputSuggestionEvent s e"

definition onInputSuggestionKeydown :: "chat \<Rightarrow> ui_event \<Rightarrow> chat" where
  "onInputSuggestionKeydown s e =
     (let isEnterOrSpace = (key e = ''Enter'' \<or> key e = '' '')
      in if \<not> isEnterOrSpace then s else onInputSuggestionEvent s e)"

subsection \<open>ChatMessage: feedback\<close>

text \<open>
  \<^verbatim>\<open>baseInputId\<close>: the id of the input without a final \<^verbatim>\<open>_user_input\<close>.
\<close>

definition baseInputId :: "chat \<Rightarrow> string" where
  "baseInputId s =
     (let i = input_id s; n = length ''_user_input''
      in if n \<le> length i \<and> drop (length i - n) i = ''_user_input''
         then take (length i - n) i else i)"

text \<open>
  The \<^verbatim>\<open>shiny-chat-message-feedback\<close> event bubbles to the container, whose
  \<^verbatim>\<open>#onMessageFeedback\<close> forwards the detail to Shiny; its guard on \<^verbatim>\<open>window.Shiny\<close>
  passes on the page the model is about.
\<close>

definition dispatch_feedback :: "feedback_event \<Rightarrow> chat \<Rightarrow> chat" where
  "dispatch_feedback d s =
     s\<lparr>dispatched := dispatched s @ [MessageFeedbackEvent d],
       shiny_inputs := shiny_inputs s @ [(baseInputId s @ ''_message_feedback'', FeedbackValue d)]\<rparr>"

text \<open>
  The two click handlers, for the message at position \<open>i\<close> of the transcript. Every
  child of the transcript is a \<^verbatim>\<open>shiny-chat-message\<close>, so \<^verbatim>\<open>#getMessageIndex\<close> is \<open>i\<close>.
  There is no click on a message that does not exist.
\<close>

definition toggle_feedback :: "feedback \<Rightarrow> nat \<Rightarrow> chat \<Rightarrow> chat" where
  "toggle_feedback fb i s =
     (if length (messages s) \<le> i then s
      else
        let el = messages s ! i;
            given = (if feedbackGiven el = Some fb then None else Some fb);
            s1 = s\<lparr>messages := (messages s)[i := el\<lparr>feedbackGiven := given\<rparr>]\<rparr>
        in if given \<noteq> None
           then dispatch_feedback
                  \<lparr>messageIndex = int i, fe_content = content_prop el, fe_feedback = fb\<rparr> s1
           else s1)"

definition onThumbsUpClick :: "nat \<Rightarrow> chat \<Rightarrow> chat" where
  "onThumbsUpClick i s = toggle_feedback Positive i s"

definition onThumbsDownClick :: "nat \<Rightarrow> chat \<Rightarrow> chat" where
  "onThumbsDownClick i s = toggle_feedback Negative i s"

subsection \<open>ChatInput: audio capture\<close>

text \<open>
  What the platform answers when a capture starts: whether a speech recogniser exists,
  whether its \<^verbatim>\<open>start()\<close> throws, the language of the navigator, and which encodings
  \<^verbatim>\<open>MediaRecorder\<close> supports. The clock is an argument \<open>now\<close>, in milliseconds, of every
  function that reads it.
\<close>

record platform =
  speech_available :: bool
  speech_start_throws :: bool
  navigator_language :: string
  isTypeSupported :: "string \<Rightarrow> bool"

definition isTranscribeMode :: "chat \<Rightarrow> bool" where
  "isTranscribeMode s = (audioInputMode s = ''transcribe'')"

text \<open>
  The recorder the field \<^verbatim>\<open>_mediaRecorder\<close> holds, with its position. The code puts into
  the field only a recorder it has just made, so the position is one of the store; a
  position outside of it reads as an empty field.
\<close>

definition field_recorder :: "chat \<Rightarrow> (nat \<times> media_recorder) option" where
  "field_recorder s =
     (case mediaRecorder s of
        None \<Rightarrow> None
      | Some i \<Rightarrow> if i < length (recorders s) then Some (i, recorders s ! i) else None)"

text \<open>
  \<^verbatim>\<open>#startRecording\<close> is asynchronous. The call asks for the microphone and returns: the
  function touches no state before \<^verbatim>\<open>getUserMedia\<close> settles.
\<close>

definition startRecording :: "chat \<Rightarrow> chat" where
  "startRecording s = s\<lparr>getUserMedia_pending := Suc (getUserMedia_pending s)\<rparr>"

text \<open>
  The rest of \<^verbatim>\<open>#startRecording\<close>, which runs when \<^verbatim>\<open>getUserMedia\<close> has settled, whatever
  has happened to the widget in between. A refused microphone, and a \<^verbatim>\<open>MediaRecorder\<close>
  constructor that rejects the encoding, end in the \<^verbatim>\<open>catch\<close>. Otherwise a new recorder
  on the new stream takes the field, with the \<^verbatim>\<open>onstop\<close> that releases its own stream;
  the recorder the field held before stays as it is. The new interval timer takes the
  field of the handle without the old one being cleared.
\<close>

definition startRecording_resumed :: "platform \<Rightarrow> bool \<Rightarrow> int \<Rightarrow> chat \<Rightarrow> chat" where
  "startRecording_resumed p granted now s =
     (if \<not> granted then s
      else
        let mt = (if isTypeSupported p ''audio/webm;codecs=opus'' then ''audio/webm;codecs=opus''
                  else if isTypeSupported p ''audio/webm'' then ''audio/webm''
                  else ''audio/wav'')
        in if \<not> isTypeSupported p mt then s
           else s\<lparr>recorders :=
                     recorders s @
                     [\<lparr>mimeType = mt, onstop = ReleaseOnly, rec_state = Recording,
                       tracks_live = True\<rparr>],
                   mediaRecorder := Some (length (recorders s)),
                   audioChunks := [],
                   isRecording := True,
                   recordingStartTime := now,
                   recordingDuration := 0,
                   recordingTimer := True,
                   intervals := Suc (intervals s)\<rparr>)"

text \<open>One pending \<^verbatim>\<open>getUserMedia\<close> settles, granted or refused.\<close>

definition getUserMedia_settled :: "platform \<Rightarrow> bool \<Rightarrow> int \<Rightarrow> chat \<Rightarrow> chat" where
  "getUserMedia_settled p granted now s =
     (if getUserMedia_pending s = 0 then s
      else startRecording_resumed p granted now
             (s\<lparr>getUserMedia_pending := getUserMedia_pending s - 1\<rparr>))"

definition startTranscription :: "platform \<Rightarrow> int \<Rightarrow> chat \<Rightarrow> chat" where
  "startTranscription p now s =
     (if \<not> speech_available p then startRecording s
      else
        let s1 = s\<lparr>speechRecognition :=
                     Some \<lparr>sr_continuous = True, sr_interimResults = True,
                           sr_lang = or_else (Some (navigator_language p)) ''en-US''\<rparr>,
                   finalTranscript := [],
                   transcribedText := []\<rparr>
        in if speech_start_throws p then s1
           else s1\<lparr>recognition_starts := Suc (recognition_starts s1),
                    isRecording := True,
                    recordingStartTime := now\<rparr>)"

text \<open>\<^verbatim>\<open>MediaRecorder.stop()\<close>: nothing happens on a recorder that is not recording.\<close>

definition recorder_stop :: "media_recorder \<Rightarrow> media_recorder" where
  "recorder_stop r = (if rec_state r = Recording then r\<lparr>rec_state := Stopping\<rparr> else r)"

text \<open>
  \<^verbatim>\<open>#stopRecording\<close>. With a recogniser held it ends the transcription. Otherwise it
  works on the recorder the field holds, and only while the flag is set: it clears the
  timer of the field, and either stops the recorder and empties the buffer, or gives the
  recorder the \<^verbatim>\<open>onstop\<close> that hands the recording off and stops it.
\<close>

definition stopRecording :: "bool \<Rightarrow> int \<Rightarrow> chat \<Rightarrow> chat" where
  "stopRecording cancel now s =
     (case speechRecognition s of
        Some _ \<Rightarrow>
          let s1 = s\<lparr>speechRecognition := None\<rparr>;
              s2 = (if \<not> cancel \<and> trim (transcribedText s1) \<noteq> []
                    then setInputValue s1 (trim (transcribedText s1)) True True
                    else s1)
          in s2\<lparr>isRecording := False, transcribedText := []\<rparr>
      | None \<Rightarrow>
          (case field_recorder s of
             None \<Rightarrow> s
           | Some (i, r) \<Rightarrow>
               if \<not> isRecording s then s
               else
                 let s1 = (if recordingTimer s
                           then s\<lparr>recordingTimer := False, intervals := intervals s - 1\<rparr>
                           else s);
                     d = of_int (now - recordingStartTime s1) / 1000
                 in if cancel
                    then s1\<lparr>recorders := (recorders s1)[i := recorder_stop r],
                             isRecording := False,
                             audioChunks := []\<rparr>
                    else s1\<lparr>recorders :=
                               (recorders s1)[i := recorder_stop (r\<lparr>onstop := ReleaseAndSend d\<rparr>)],
                             isRecording := False\<rparr>))"

definition toggleRecording :: "platform \<Rightarrow> int \<Rightarrow> chat \<Rightarrow> chat" where
  "toggleRecording p now s =
     (if isRecording s then stopRecording False now s
      else if isTranscribeMode s then startTranscription p now s
      else startRecording s)"

text \<open>
  The microphone button of \<^verbatim>\<open>render\<close>: it is there when the audio input is enabled, it
  is disabled when the input is, and its click handler is \<^verbatim>\<open>#toggleRecording\<close>. A button
  that is absent or disabled takes no click.
\<close>

definition audioInputEnabled :: "chat \<Rightarrow> bool" where
  "audioInputEnabled s = (audioInputMode s = ''transcribe'' \<or> audioInputMode s = ''raw'')"

definition micButton_click :: "platform \<Rightarrow> int \<Rightarrow> chat \<Rightarrow> chat" where
  "micButton_click p now s =
     (if audioInputEnabled s \<and> \<not> disabled s then toggleRecording p now s else s)"

text \<open>
  \<^verbatim>\<open>disconnectedCallback\<close> of \<^verbatim>\<open>ChatInput\<close>; the observer and the composition listeners it
  removes are not part of the model.
\<close>

definition disconnectedCallback :: "int \<Rightarrow> chat \<Rightarrow> chat" where
  "disconnectedCallback now s = stopRecording True now s"

text \<open>
  \<^verbatim>\<open>#sendAudioData\<close>. The source reads the blob as a data URL and sends what follows the
  comma, from the \<^verbatim>\<open>onloadend\<close> of the reader; the model sends the bytes themselves, at
  once. The guard on \<^verbatim>\<open>window.Shiny\<close> passes on the page the model is about.
\<close>

definition sendAudioData :: "blob \<Rightarrow> string \<Rightarrow> rat \<Rightarrow> chat \<Rightarrow> chat" where
  "sendAudioData b fmt d s =
     (let audioData = \<lparr>audio = blob_bytes b, format = fmt, duration = d, size_bytes = blob_size b\<rparr>
      in s\<lparr>shiny_inputs := shiny_inputs s @ [(input_id s @ ''_audio'', AudioValue audioData)],
           dispatched := dispatched s @ [AudioInputEvent audioData]\<rparr>)"

subsection \<open>The callbacks of the platform\<close>

record speech_result =
  isFinal :: bool
  alternatives :: "js_string list"

record speech_event =
  resultIndex :: nat
  results :: "speech_result option list"

text \<open>The loop of \<^verbatim>\<open>onresult\<close>, on the results from \<^verbatim>\<open>resultIndex\<close> on.\<close>

fun onresult_loop ::
  "speech_result option list \<Rightarrow> js_string \<times> js_string \<Rightarrow> js_string \<times> js_string" where
  "onresult_loop [] acc = acc"
| "onresult_loop (None # rs) acc = onresult_loop rs acc"
| "onresult_loop (Some r # rs) (finals, interim) =
     (case alternatives r of
        [] \<Rightarrow> onresult_loop rs (finals, interim)
      | transcript # _ \<Rightarrow>
          if isFinal r then onresult_loop rs (finals @ transcript, interim)
          else onresult_loop rs (finals, interim @ transcript))"

definition onresult :: "speech_event \<Rightarrow> chat \<Rightarrow> chat" where
  "onresult ev s =
     (case onresult_loop (drop (resultIndex ev) (results ev)) (finalTranscript s, []) of
        (finals, interim) \<Rightarrow>
          s\<lparr>finalTranscript := finals, transcribedText := trim (finals @ interim)\<rparr>)"

definition onerror :: "string \<Rightarrow> int \<Rightarrow> chat \<Rightarrow> chat" where
  "onerror code now s = stopRecording True now s"

text \<open>
  \<^verbatim>\<open>onend\<close> is set on the recogniser the field holds, and \<^verbatim>\<open>#stopRecording\<close> unsets it
  when it empties the field.
\<close>

definition onend :: "chat \<Rightarrow> chat" where
  "onend s =
     (case speechRecognition s of
        None \<Rightarrow> s
      | Some _ \<Rightarrow>
          if isRecording s then s\<lparr>recognition_starts := Suc (recognition_starts s)\<rparr> else s)"

text \<open>
  \<^verbatim>\<open>ondataavailable\<close> is the same function on every recorder: it pushes onto the list
  the field \<^verbatim>\<open>_audioChunks\<close> holds when the event comes.
\<close>

definition ondataavailable :: "blob \<Rightarrow> chat \<Rightarrow> chat" where
  "ondataavailable d s =
     (if blob_size d > 0 then s\<lparr>audioChunks := audioChunks s @ [d]\<rparr> else s)"

text \<open>\<^verbatim>\<open>stream.getTracks().forEach((track) => track.stop())\<close> on the stream of a recorder.\<close>

definition stop_tracks :: "nat \<Rightarrow> chat \<Rightarrow> chat" where
  "stop_tracks i s =
     (if i < length (recorders s)
      then s\<lparr>recorders := (recorders s)[i := (recorders s ! i)\<lparr>tracks_live := False\<rparr>]\<rparr>
      else s)"

text \<open>
  The \<^verbatim>\<open>stop\<close> event of a recorder of the store, which the platform fires once, runs the
  function the \<^verbatim>\<open>onstop\<close> of that recorder holds then, whether the field still holds
  the recorder or not. The function of \<^verbatim>\<open>#startRecording\<close> stops the tracks of the stream
  it closed over, the one of the recorder. The function of \<^verbatim>\<open>#stopRecording\<close> reads the
  fields when it runs: it stops the tracks of the recorder \<^verbatim>\<open>_mediaRecorder\<close> holds
  then, sends the list \<^verbatim>\<open>_audioChunks\<close> holds then, under the encoding of the recorder
  \<^verbatim>\<open>_mediaRecorder\<close> holds then, and empties the list; only the duration is the one it
  closed over.
\<close>

definition fire_onstop :: "nat \<Rightarrow> chat \<Rightarrow> chat" where
  "fire_onstop i s =
     (if \<not> i < length (recorders s) then s
      else
        let r = recorders s ! i
        in if rec_state r = Inactive then s
           else
             let s1 = s\<lparr>recorders := (recorders s)[i := r\<lparr>rec_state := Inactive\<rparr>]\<rparr>
             in case onstop r of
                  ReleaseOnly \<Rightarrow> stop_tracks i s1
                | ReleaseAndSend d \<Rightarrow>
                    let s2 = (case mediaRecorder s1 of
                                None \<Rightarrow> s1
                              | Some j \<Rightarrow> stop_tracks j s1);
                        s3 = (if audioChunks s2 \<noteq> []
                              then let mt = or_else (map_option (\<lambda>(j, q). mimeType q)
                                                       (field_recorder s2)) ''audio/webm''
                                   in sendAudioData (new_Blob (audioChunks s2) mt) mt d s2
                              else s2)
                    in s3\<lparr>audioChunks := []\<rparr>)"

text \<open>Every interval timer that is set runs the same function.\<close>

definition timer_tick :: "int \<Rightarrow> chat \<Rightarrow> chat" where
  "timer_tick now s =
     (if intervals s > 0
      then s\<lparr>recordingDuration := (now - recordingStartTime s) div 1000\<rparr>
      else s)"

text \<open>
  What the platform calls back: the events of the recogniser, the settlement of a
  \<^verbatim>\<open>getUserMedia\<close>, the \<^verbatim>\<open>dataavailable\<close> and \<^verbatim>\<open>stop\<close> events of a recorder of the store,
  given by its position, and the tick of an interval timer. A recorder gets its
  \<^verbatim>\<open>dataavailable\<close> events before its \<^verbatim>\<open>stop\<close> event.
\<close>

datatype callback =
  SpeechResult speech_event
| SpeechError string
| SpeechEnd
| UserMediaSettled bool
| DataAvailable nat blob
| RecorderStop nat
| TimerTick

fun fire :: "platform \<Rightarrow> chat \<Rightarrow> callback \<times> int \<Rightarrow> chat" where
  "fire p s (SpeechResult ev, now) = onresult ev s"
| "fire p s (SpeechError code, now) = onerror code now s"
| "fire p s (SpeechEnd, now) = onend s"
| "fire p s (UserMediaSettled granted, now) = getUserMedia_settled p granted now s"
| "fire p s (DataAvailable i d, now) =
     (if i < length (recorders s) \<and> rec_state (recorders s ! i) \<noteq> Inactive
      then ondataavailable d s else s)"
| "fire p s (RecorderStop i, now) = fire_onstop i s"
| "fire p s (TimerTick, now) = timer_tick now s"

definition fire_all :: "platform \<Rightarrow> chat \<Rightarrow> (callback \<times> int) list \<Rightarrow> chat" where
  "fire_all p s cbs = foldl (fire p) s cbs"

subsection \<open>The signals the container receives\<close>

text \<open>
  The events the container listens to. \<^verbatim>\<open>shiny-chat-input-sent\<close> comes from
  \<^verbatim>\<open>#sendInput\<close>, with the role of the user. An error thrown by a handler ends that
  handler and nothing else: the widget goes on with the state it has.
\<close>

datatype signal =
  InputSent js_string
| AppendMessage message
| AppendMessageChunk message
| ClearMessages
| RemoveLoadingMessage

fun handle :: "chat \<Rightarrow> signal \<Rightarrow> chat" where
  "handle s (InputSent c) = onInputSent s (input_sent_detail c)"
| "handle s (AppendMessage m) = onAppend s m"
| "handle s (AppendMessageChunk m) =
     (case onAppendChunk s m of Inl (e, s') \<Rightarrow> s' | Inr s' \<Rightarrow> s')"
| "handle s ClearMessages = onClear s"
| "handle s RemoveLoadingMessage = onRemoveLoadingMessage s"

definition handle_all :: "chat \<Rightarrow> signal list \<Rightarrow> chat" where
  "handle_all s sigs = foldl handle s sigs"

text \<open>The chunks of one stream, stopping at the first error.\<close>

fun appendChunks :: "chat \<Rightarrow> message list \<Rightarrow> (js_error \<times> chat) + chat" where
  "appendChunks s [] = Inr s"
| "appendChunks s (m # ms) =
     (case appendMessageChunk s m of Inl e \<Rightarrow> Inl e | Inr s' \<Rightarrow> appendChunks s' ms)"

text \<open>
  A loading placeholder, as far as the elements tell: an assistant message whose
  content is empty.
\<close>

definition is_placeholder :: "chat_message \<Rightarrow> bool" where
  "is_placeholder el = (content_prop el = [] \<and> role_prop el = Assistant)"

definition placeholders :: "chat \<Rightarrow> nat" where
  "placeholders s = length (filter is_placeholder (messages s))"

definition no_buried_placeholder :: "chat \<Rightarrow> bool" where
  "no_buried_placeholder s = list_all (\<lambda>el. \<not> is_placeholder el) (butlast (messages s))"

text \<open>
  A capture is under way: the flag is set, and a recogniser is held or the recorder
  the field holds is recording.
\<close>

definition capturing :: "chat \<Rightarrow> bool" where
  "capturing s =
     (isRecording s \<and>
      (speechRecognition s \<noteq> None \<or>
       (case field_recorder s of None \<Rightarrow> False | Some (i, r) \<Rightarrow> rec_state r = Recording)))"





text \<open>The \<^verbatim>\<open>dataavailable\<close> events of a list of blobs on the recorder \<open>i\<close>, at a time \<open>t\<close>.\<close>

definition deliveries :: "nat \<Rightarrow> blob list \<Rightarrow> int \<Rightarrow> (callback \<times> int) list" where
  "deliveries i ds t = map (\<lambda>d. (DataAvailable i d, t)) ds"

text \<open>What the text path of the input never writes.\<close>

definition untouched_by_text ::
  "chat \<Rightarrow> string \<times> string \<times> string \<times> string \<times> bool \<times> int \<times> media_recorder list \<times>
    nat option \<times> nat \<times> blob list \<times> int \<times> bool \<times> nat \<times> speech_recognition option \<times> nat \<times>
    js_string \<times> js_string \<times> custom_event list" where
  "untouched_by_text s =
     (iconAssistant s, messageActions s, input_id s, audioInputMode s, isRecording s,
      recordingDuration s, recorders s, mediaRecorder s, getUserMedia_pending s,
      audioChunks s, recordingStartTime s, recordingTimer s, intervals s,
      speechRecognition s, recognition_starts s, finalTranscript s, transcribedText s,
      dispatched s)"

text \<open>The transcript without the private feedback state of its messages.\<close>

definition transcript :: "chat \<Rightarrow> chat_message list" where
  "transcript s = map (\<lambda>el. el\<lparr>feedbackGiven := None\<rparr>) (messages s)"

subsection \<open>A widget just attached, and other concrete states\<close>

definition fresh_chat :: "string \<Rightarrow> chat" where
  "fresh_chat mode =
     \<lparr>messages = [], iconAssistant = [], messageActions = [], input_id = ''chat_user_input'',
      disabled = False, textarea_value = [], textarea_focused = False, button_disabled = True,
      audioInputMode = mode, isRecording = False, recordingDuration = 0,
      recorders = [], mediaRecorder = None, getUserMedia_pending = 0, audioChunks = [],
      recordingStartTime = 0, recordingTimer = False, intervals = 0, speechRecognition = None,
      recognition_starts = 0, finalTranscript = [], transcribedText = [], shiny_inputs = [],
      dispatched = []\<rparr>"

definition chunk :: "js_string \<Rightarrow> chunk_type option \<Rightarrow> operation option \<Rightarrow> message" where
  "chunk c ct op =
     \<lparr>content = c, role = Assistant, chunk_type = ct, content_type = Some Markdown,
      icon = None, operation = op\<rparr>"

text \<open>The widget after the user has typed \<^verbatim>\<open>Hi\<close> and sent it.\<close>

definition typed_chat :: chat where
  "typed_chat = (fresh_chat [])\<lparr>textarea_value := utf16 ''Hi'', button_disabled := False\<rparr>"

definition awaiting_chat :: chat where
  "awaiting_chat = sendInput True typed_chat"

text \<open>A suggestion that fills the input by default, and one that submits.\<close>

definition fill_suggestion :: dom_element where
  "fill_suggestion =
     \<lparr>is_HTMLElement = True, classList = [''suggestion''], data_suggestion = None,
      data_suggestion_submit = None, textContent = utf16 ''Tell me more''\<rparr>"

definition submit_suggestion :: dom_element where
  "submit_suggestion =
     \<lparr>is_HTMLElement = True, classList = [''suggestion'', ''submit''],
      data_suggestion = Some (utf16 ''Plot it''), data_suggestion_submit = None,
      textContent = utf16 ''Plot the data''\<rparr>"

definition click_on :: "dom_element \<Rightarrow> bool \<Rightarrow> bool \<Rightarrow> bool \<Rightarrow> ui_event" where
  "click_on el meta ctrl alt =
     \<lparr>target = [el], key = [], metaKey = meta, ctrlKey = ctrl, altKey = alt\<rparr>"

definition enter_on :: "dom_element \<Rightarrow> bool \<Rightarrow> bool \<Rightarrow> bool \<Rightarrow> ui_event" where
  "enter_on el meta ctrl alt =
     \<lparr>target = [el], key = ''Enter'', metaKey = meta, ctrlKey = ctrl, altKey = alt\<rparr>"

text \<open>
  The widget after the user has typed a space, a no-break space, an ideographic space,
  a line separator, a byte order mark and a line feed.
\<close>

definition blank_chat :: chat where
  "blank_chat =
     onInput ((fresh_chat [])\<lparr>textarea_value := [0x0020, 0x00A0, 0x3000, 0x2028, 0xFEFF, 0x000A]\<rparr>)"

text \<open>A transcript of one assistant message that has content.\<close>

definition answered_chat :: chat where
  "answered_chat = onAppend (fresh_chat []) (chunk (utf16 ''Hello'') None None)"

text \<open>
  A platform with a speech recogniser, whose recorder supports plain \<^verbatim>\<open>audio/webm\<close>; a
  widget that has heard \<^verbatim>\<open>hello world\<close> in transcribe mode; a widget in raw mode whose
  microphone was granted after a click, and which is recording.
\<close>

definition a_platform :: platform where
  "a_platform =
     \<lparr>speech_available = True, speech_start_throws = False, navigator_language = ''en-US'',
      isTypeSupported = (\<lambda>t. t = ''audio/webm'')\<rparr>"

definition hello_world_event :: speech_event where
  "hello_world_event =
     \<lparr>resultIndex = 0,
      results = [Some \<lparr>isFinal = True, alternatives = [utf16 ''hello '']\<rparr>,
                 Some \<lparr>isFinal = False, alternatives = [utf16 ''world '', utf16 ''word '']\<rparr>]\<rparr>"

definition listening_chat :: chat where
  "listening_chat = micButton_click a_platform 1000 (fresh_chat ''transcribe'')"

definition transcribing_chat :: chat where
  "transcribing_chat =
     onresult hello_world_event listening_chat"

definition recording_chat :: chat where
  "recording_chat =
     fire a_platform (micButton_click a_platform 900 (fresh_chat ''raw''))
       (UserMediaSettled True, 1000)"

definition webm_recorder :: media_recorder where
  "webm_recorder =
     \<lparr>mimeType = ''audio/webm'', onstop = ReleaseOnly, rec_state = Recording,
      tracks_live = True\<rparr>"

definition some_audio :: blob where
  "some_audio = \<lparr>blob_bytes = [26, 69, 223, 163], blob_type = ''audio/webm''\<rparr>"

definition no_audio :: blob where
  "no_audio = \<lparr>blob_bytes = [], blob_type = ''audio/webm''\<rparr>"

definition other_audio :: blob where
  "other_audio = \<lparr>blob_bytes = [31, 67, 182], blob_type = ''audio/webm''\<rparr>"


text \<open>
  A widget in raw mode after three clicks on the microphone button. The first
  recording was stopped by the second click, to be sent, and the \<^verbatim>\<open>stop\<close> event of its
  recorder has not come yet; the third click has started a second recording, which is
  under way.
\<close>

definition stopped_chat :: chat where
  "stopped_chat = micButton_click a_platform 4000 recording_chat"

definition recording_again_chat :: chat where
  "recording_again_chat =
     fire a_platform (micButton_click a_platform 5000 stopped_chat) (UserMediaSettled True, 5100)"

section \<open>Properties\<close>

subsection \<open>Facts about the steps\<close>

lemma utf16_Nil [simp]: "utf16 [] = []"
  by (simp add: utf16_def)

lemma utf16_Cons [simp]: "utf16 (c # cs) = of_char c # utf16 cs"
  by (simp add: utf16_def)

lemma case_list_if: "(case xs of [] \<Rightarrow> a | x # ys \<Rightarrow> b) = (if xs = [] then a else b)"
  by (cases xs) simp_all

lemma messages_onInput [simp]: "messages (onInput s) = messages s"
  by (simp add: onInput_def)

lemma messages_set_disabled [simp]: "messages (set_disabled v s) = messages s"
  by (simp add: set_disabled_def)

lemma disabled_set_disabled [simp]: "disabled (set_disabled v s) = v"
  by (simp add: set_disabled_def onInput_def)

lemma messages_finalizeMessage [simp]: "messages (finalizeMessage s) = messages s"
  by (simp add: finalizeMessage_def)

lemma messages_removeLoadingMessage:
  "messages (removeLoadingMessage s) =
     (if messages s \<noteq> [] \<and> content_prop (last (messages s)) = [] then butlast (messages s)
      else messages s)"
  by (simp add: removeLoadingMessage_def case_list_if)

lemma messages_initMessage [simp]: "messages (initMessage s) = messages (removeLoadingMessage s)"
  by (simp add: initMessage_def Let_def)

lemma message_element_initMessage [simp]:
  "message_element (initMessage s) m = message_element s m"
  by (simp add: message_element_def initMessage_def Let_def removeLoadingMessage_def
      set_disabled_def onInput_def case_list_if)

lemma messages_appendMessage:
  "messages (appendMessage s m f) = messages (removeLoadingMessage s) @ [message_element s m]"
  by (simp add: appendMessage_def Let_def)

lemma content_prop_message_element [simp]: "content_prop (message_element s m) = content m"
  by (simp add: message_element_def createElement_def content_prop_def new_chat_message_def)

lemma role_prop_message_element [simp]: "role_prop (message_element s m) = role m"
  by (simp add: message_element_def createElement_def role_prop_def new_chat_message_def)

lemma attr_content_message_element [simp]:
  "attr_content (message_element s m) = Some (content m)"
  by (simp add: message_element_def createElement_def new_chat_message_def)

lemma attr_streaming_message_element [simp]: "attr_streaming (message_element s m) = False"
  by (simp add: message_element_def createElement_def new_chat_message_def)

lemma messages_set_last:
  "messages (set_last f s) = butlast (messages s) @ [f (last (messages s))]"
  by (simp add: set_last_def)

text \<open>What \<^verbatim>\<open>#appendMessageChunk\<close> does to the transcript, for a start chunk and for the others.\<close>

lemma start_chunk:
  assumes "chunk_type m = Some MessageStart"
  shows "\<exists>s'. appendMessageChunk s m = Inr s' \<and>
           messages s' =
             messages (removeLoadingMessage s) @ [(message_element s m)\<lparr>attr_streaming := True\<rparr>]"
  using assms
  by (simp add: appendMessageChunk_def Let_def messages_appendMessage messages_set_last
      case_list_if)

lemma next_chunk:
  assumes "chunk_type m \<noteq> Some MessageStart" and "messages s \<noteq> []"
  shows "\<exists>s'. appendMessageChunk s m = Inr s' \<and>
           messages s' =
             butlast (messages s) @
             [(last (messages s))
                \<lparr>attr_content :=
                   Some (if operation m = Some Append
                         then concat_nullable (attr_content (last (messages s))) (content m)
                         else content m),
                 attr_streaming :=
                   (if chunk_type m = Some MessageEnd then False
                    else attr_streaming (last (messages s)))\<rparr>]"
  using assms
  by (simp add: appendMessageChunk_def Let_def messages_set_last case_list_if)

subsection \<open>Chunks without a message\<close>

text \<open>
  C3. A chunk that is not a \<^verbatim>\<open>message_start\<close>, arriving at an empty transcript, makes
  \<^verbatim>\<open>#appendMessageChunk\<close> throw its error, and the handler of the event lets the error
  through; the state at the throw is the state before the call.
\<close>

theorem appendMessageChunk_no_message:
  assumes "messages s = []" and "chunk_type m \<noteq> Some MessageStart"
  shows "appendMessageChunk s m = Inl (Error ''No messages found in the chat output'', s) \<and>
         onAppendChunk s m = Inl (Error ''No messages found in the chat output'', s)"
  using assms by (simp add: onAppendChunk_def appendMessageChunk_def)

theorem appendMessageChunk_no_message_witness:
  "messages (fresh_chat []) = [] \<and>
   chunk_type (chunk (utf16 ''Hel'') None (Some Append)) \<noteq> Some MessageStart \<and>
   appendMessageChunk (fresh_chat []) (chunk (utf16 ''Hel'') None (Some Append)) =
     Inl (Error ''No messages found in the chat output'', fresh_chat []) \<and>
   onAppendChunk (fresh_chat []) (chunk (utf16 ''Hel'') None (Some Append)) =
     Inl (Error ''No messages found in the chat output'', fresh_chat [])"
  using appendMessageChunk_no_message [of "fresh_chat []" "chunk (utf16 ''Hel'') None (Some Append)"]
  by (simp add: fresh_chat_def chunk_def)

subsection \<open>The loading placeholder\<close>

lemma content_prop_update [simp]:
  "content_prop (el\<lparr>attr_streaming := b\<rparr>) = content_prop el"
  "content_prop (el\<lparr>attr_content := Some c\<rparr>) = c"
  "content_prop (el\<lparr>feedbackGiven := g\<rparr>) = content_prop el"
  by (simp_all add: content_prop_def)

lemma role_prop_update [simp]:
  "role_prop (el\<lparr>attr_streaming := b\<rparr>) = role_prop el"
  "role_prop (el\<lparr>attr_content := x\<rparr>) = role_prop el"
  "role_prop (el\<lparr>feedbackGiven := g\<rparr>) = role_prop el"
  by (simp_all add: role_prop_def)

lemma is_placeholder_loading: "is_placeholder createElement_loading"
  by (simp add: is_placeholder_def createElement_loading_def new_chat_message_def
      content_prop_def role_prop_def)

lemma list_all_butlast: "list_all P xs \<Longrightarrow> list_all P (butlast xs)"
  by (induction xs) auto

text \<open>
  When no placeholder lies under the tail, nothing that \<^verbatim>\<open>#removeLoadingMessage\<close> leaves
  is a placeholder: it removes the tail when the tail's content is empty.
\<close>

lemma removeLoadingMessage_clean:
  assumes "no_buried_placeholder s"
  shows "list_all (\<lambda>el. \<not> is_placeholder el) (messages (removeLoadingMessage s))"
proof (cases "messages s \<noteq> [] \<and> content_prop (last (messages s)) = []")
  case True
  then show ?thesis using assms
    by (simp add: messages_removeLoadingMessage no_buried_placeholder_def)
next
  case False
  show ?thesis
  proof (cases "messages s = []")
    case True
    then show ?thesis by (simp add: messages_removeLoadingMessage)
  next
    case nonempty: False
    with False have "\<not> is_placeholder (last (messages s))"
      by (simp add: is_placeholder_def)
    then have "list_all (\<lambda>el. \<not> is_placeholder el) (butlast (messages s) @ [last (messages s)])"
      using assms by (simp add: no_buried_placeholder_def)
    then have "list_all (\<lambda>el. \<not> is_placeholder el) (messages s)"
      using nonempty by simp
    moreover have "messages (removeLoadingMessage s) = messages s"
      using False by (auto simp add: messages_removeLoadingMessage)
    ultimately show ?thesis by simp
  qed
qed

lemma no_buried_removeLoadingMessage:
  "no_buried_placeholder s \<Longrightarrow> no_buried_placeholder (removeLoadingMessage s)"
  using removeLoadingMessage_clean [of s]
  by (simp add: no_buried_placeholder_def list_all_butlast)

lemma no_buried_appendMessage:
  "no_buried_placeholder s \<Longrightarrow> no_buried_placeholder (appendMessage s m f)"
  using removeLoadingMessage_clean [of s]
  by (simp add: no_buried_placeholder_def messages_appendMessage)

lemma messages_onInputSent:
  "messages (onInputSent s m) =
     (messages (removeLoadingMessage s) @ [message_element s m]) @ [createElement_loading]"
  by (simp add: onInputSent_def addLoadingMessage_def messages_appendMessage)

lemma no_buried_onInputSent:
  assumes "no_buried_placeholder s" and "role m = User"
  shows "no_buried_placeholder (onInputSent s m)"
proof -
  have "butlast (messages (onInputSent s m)) =
      messages (removeLoadingMessage s) @ [message_element s m]"
    by (simp only: messages_onInputSent butlast_snoc)
  then show ?thesis
    using removeLoadingMessage_clean [OF assms(1)] assms(2)
    by (simp add: no_buried_placeholder_def is_placeholder_def)
qed

lemma no_buried_appendMessageChunk:
  assumes "no_buried_placeholder s"
  shows "no_buried_placeholder
           (case appendMessageChunk s m of Inl (e, s') \<Rightarrow> s' | Inr s' \<Rightarrow> s')"
proof (cases "chunk_type m = Some MessageStart")
  case True
  from start_chunk [OF True, of s] obtain s' where
    "appendMessageChunk s m = Inr s'"
    "messages s' =
       messages (removeLoadingMessage s) @ [(message_element s m)\<lparr>attr_streaming := True\<rparr>]"
    by blast
  then show ?thesis using removeLoadingMessage_clean [OF assms]
    by (simp add: no_buried_placeholder_def)
next
  case False
  show ?thesis
  proof (cases "messages s = []")
    case True
    with False assms show ?thesis
      by (simp add: appendMessageChunk_def)
  next
    case nonempty: False
    from next_chunk [OF False nonempty] obtain s' where
      "appendMessageChunk s m = Inr s'" "butlast (messages s') = butlast (messages s)"
      by auto
    then show ?thesis using assms by (simp add: no_buried_placeholder_def)
  qed
qed

lemma no_buried_handle:
  assumes "no_buried_placeholder s"
  shows "no_buried_placeholder (handle s sg)"
proof (cases sg)
  case (InputSent c)
  then show ?thesis using assms by (simp add: no_buried_onInputSent input_sent_detail_def)
next
  case (AppendMessage m)
  then show ?thesis using assms by (simp add: onAppend_def no_buried_appendMessage)
next
  case (AppendMessageChunk m)
  then show ?thesis using no_buried_appendMessageChunk [OF assms, of m]
    by (simp add: onAppendChunk_def)
next
  case ClearMessages
  then show ?thesis by (simp add: onClear_def no_buried_placeholder_def)
next
  case RemoveLoadingMessage
  then show ?thesis using no_buried_removeLoadingMessage [OF assms]
    by (simp add: onRemoveLoadingMessage_def no_buried_placeholder_def)
qed

lemma no_buried_handle_all:
  "no_buried_placeholder s \<Longrightarrow> no_buried_placeholder (handle_all s sigs)"
  unfolding handle_all_def
  by (induction sigs arbitrary: s) (simp_all add: no_buried_handle)

lemma no_buried_placeholders:
  assumes "no_buried_placeholder s"
  shows "placeholders s \<le> 1"
proof (cases "messages s = []")
  case True
  then show ?thesis by (simp add: placeholders_def)
next
  case False
  then have "messages s = butlast (messages s) @ [last (messages s)]" by simp
  then have "filter is_placeholder (messages s) =
      filter is_placeholder (butlast (messages s)) @ filter is_placeholder [last (messages s)]"
    by (metis filter_append)
  moreover have "filter is_placeholder (butlast (messages s)) = []"
    using assms by (simp add: no_buried_placeholder_def list_all_iff)
  ultimately show ?thesis by (simp add: placeholders_def)
qed

text \<open>What \<^verbatim>\<open>#sendInput\<close> does to the transcript when it sends.\<close>

lemma sendInput_messages:
  assumes "\<not> valueIsEmpty s" and "\<not> disabled s"
  shows "messages (sendInput f s) =
           messages (removeLoadingMessage s) @
           [message_element s (input_sent_detail (textarea_value s)), createElement_loading]"
  using assms
  apply (simp add: Let_def textarea_focus_def onInputSent_def addLoadingMessage_def
      messages_appendMessage)
  apply (simp add: messages_removeLoadingMessage message_element_def)
  done

lemma typed_chat_sends: "\<not> valueIsEmpty typed_chat \<and> \<not> disabled typed_chat"
  by (simp add: typed_chat_def fresh_chat_def valueIsEmpty_def trim_def isWhiteSpace_def)

lemma messages_awaiting_chat:
  "messages awaiting_chat =
     [message_element typed_chat (input_sent_detail (utf16 ''Hi'')), createElement_loading]"
  using typed_chat_sends
  by (simp add: awaiting_chat_def sendInput_messages del: sendInput.simps)
    (simp add: typed_chat_def fresh_chat_def messages_removeLoadingMessage)

text \<open>
  C1. Start from a transcript in which no placeholder lies under the tail, the empty
  transcript for one. Whatever signals the container then handles (a user turn, an
  atomic message, a chunk, a clear, a removal of the loading message), after each of
  them, that is after every prefix of the sequence, at most one message is a
  placeholder, and it is the tail. And a message is appended to a transcript that ends
  in a placeholder by taking the placeholder off first.
\<close>

theorem one_placeholder:
  assumes "no_buried_placeholder s"
  shows "(\<forall>n. placeholders (handle_all s (take n sigs)) \<le> 1 \<and>
              no_buried_placeholder (handle_all s (take n sigs))) \<and>
         placeholders (handle_all s sigs) \<le> 1 \<and>
         (\<forall>m f. messages s \<noteq> [] \<and> is_placeholder (last (messages s)) \<longrightarrow>
            messages (appendMessage s m f) = butlast (messages s) @ [message_element s m])"
proof -
  have "placeholders (handle_all s xs) \<le> 1 \<and> no_buried_placeholder (handle_all s xs)" for xs
    using no_buried_handle_all [OF assms, of xs]
      no_buried_placeholders [OF no_buried_handle_all [OF assms, of xs]]
    by simp
  then show ?thesis
    by (simp add: messages_appendMessage messages_removeLoadingMessage is_placeholder_def)
qed

theorem one_placeholder_witness:
  "no_buried_placeholder awaiting_chat \<and>
   (\<forall>n. placeholders
           (handle_all awaiting_chat
              (take n [AppendMessageChunk (chunk [] (Some MessageStart) None),
                       AppendMessage (chunk [] None None), InputSent (utf16 ''more'')])) \<le> 1) \<and>
   no_buried_placeholder
     (handle_all awaiting_chat
        (take 2 [AppendMessageChunk (chunk [] (Some MessageStart) None),
                 AppendMessage (chunk [] None None), InputSent (utf16 ''more'')])) \<and>
   messages awaiting_chat \<noteq> [] \<and>
   is_placeholder (last (messages awaiting_chat)) \<and>
   messages (appendMessage awaiting_chat (chunk (utf16 ''Hello'') None None) True) =
     butlast (messages awaiting_chat) @ [message_element awaiting_chat (chunk (utf16 ''Hello'') None None)]"
proof -
  have h: "no_buried_placeholder awaiting_chat"
    by (simp add: no_buried_placeholder_def messages_awaiting_chat is_placeholder_def
        input_sent_detail_def)
  have p: "messages awaiting_chat \<noteq> [] \<and> is_placeholder (last (messages awaiting_chat))"
    by (simp add: messages_awaiting_chat is_placeholder_loading)
  show ?thesis
    using h p
      one_placeholder [OF h, of
        "[AppendMessageChunk (chunk [] (Some MessageStart) None),
          AppendMessage (chunk [] None None), InputSent (utf16 ''more'')]"]
    by blast
qed

subsection \<open>Reassembling a stream\<close>

lemma hello_stream:
  "\<exists>s' el. appendChunks (s\<lparr>messages := []\<rparr>)
       [a\<lparr>content := c0, role := Assistant, chunk_type := Some MessageStart\<rparr>,
        b\<lparr>content := utf16 ''Hel'', chunk_type := None, operation := Some Append\<rparr>,
        c\<lparr>content := utf16 ''lo'', chunk_type := None, operation := Some Append\<rparr>,
        d\<lparr>content := [], chunk_type := Some MessageEnd, operation := Some Append\<rparr>] = Inr s' \<and>
      messages s' = [el] \<and> content_prop el = c0 @ utf16 ''Hello'' \<and> \<not> attr_streaming el"
proof -
  let ?s0 = "s\<lparr>messages := []\<rparr>"
  let ?a = "a\<lparr>content := c0, role := Assistant, chunk_type := Some MessageStart\<rparr>"
  let ?b = "b\<lparr>content := utf16 ''Hel'', chunk_type := None, operation := Some Append\<rparr>"
  let ?c = "c\<lparr>content := utf16 ''lo'', chunk_type := None, operation := Some Append\<rparr>"
  let ?d = "d\<lparr>content := [], chunk_type := Some MessageEnd, operation := Some Append\<rparr>"
  let ?el = "message_element ?s0 ?a"
  obtain s1 where s1: "appendMessageChunk ?s0 ?a = Inr s1"
    "messages s1 = [?el\<lparr>attr_streaming := True\<rparr>]"
    using start_chunk [of ?a ?s0] by (auto simp: messages_removeLoadingMessage)
  obtain s2 where s2: "appendMessageChunk s1 ?b = Inr s2"
    "messages s2 = [?el\<lparr>attr_content := Some (c0 @ utf16 ''Hel''), attr_streaming := True\<rparr>]"
    using next_chunk [of ?b s1] s1(2) by auto
  obtain s3 where s3: "appendMessageChunk s2 ?c = Inr s3"
    "messages s3 = [?el\<lparr>attr_content := Some (c0 @ utf16 ''Hello''), attr_streaming := True\<rparr>]"
    using next_chunk [of ?c s2] s2(2) by auto
  obtain s4 where s4: "appendMessageChunk s3 ?d = Inr s4"
    "messages s4 = [?el\<lparr>attr_content := Some (c0 @ utf16 ''Hello''), attr_streaming := False\<rparr>]"
    using next_chunk [of ?d s3] s3(2) by auto
  have "appendChunks ?s0 [?a, ?b, ?c, ?d] = Inr s4"
    using s1(1) s2(1) s3(1) s4(1) by simp
  then show ?thesis using s4(2) by simp
qed

lemma chunk_content:
  assumes "chunk_type m \<noteq> Some MessageStart" and "messages s \<noteq> []"
    and "attr_content (last (messages s)) = Some previous_content"
  shows "\<exists>s'. appendMessageChunk s m = Inr s' \<and> messages s' \<noteq> [] \<and>
           butlast (messages s') = butlast (messages s) \<and>
           content_prop (last (messages s')) =
             (if operation m = Some Append then previous_content @ content m else content m)"
  using next_chunk [OF assms(1,2)] assms(3) by auto

text \<open>
  C2. On an empty transcript, whatever the rest of the widget's state, the four chunks
  (a start of an assistant message with empty content, \<^verbatim>\<open>Hel\<close> appended, \<^verbatim>\<open>lo\<close> appended,
  an end with empty content appended) leave one message, whose content is \<^verbatim>\<open>Hello\<close> and
  which is not streaming. When the start chunk carries content, that content comes
  first. And a chunk that is not a start writes onto the tail the tail's content
  followed by its own when its operation is \<^verbatim>\<open>append\<close>, and its own content alone
  otherwise; the messages under the tail stay.
\<close>

theorem hello_chunks:
  "(\<exists>s' el. appendChunks (s\<lparr>messages := []\<rparr>)
       [a\<lparr>content := [], role := Assistant, chunk_type := Some MessageStart\<rparr>,
        b\<lparr>content := utf16 ''Hel'', chunk_type := None, operation := Some Append\<rparr>,
        c\<lparr>content := utf16 ''lo'', chunk_type := None, operation := Some Append\<rparr>,
        d\<lparr>content := [], chunk_type := Some MessageEnd, operation := Some Append\<rparr>] = Inr s' \<and>
      messages s' = [el] \<and> content_prop el = utf16 ''Hello'' \<and> \<not> attr_streaming el) \<and>
   (\<forall>c0. \<exists>s' el. appendChunks (s\<lparr>messages := []\<rparr>)
       [a\<lparr>content := c0, role := Assistant, chunk_type := Some MessageStart\<rparr>,
        b\<lparr>content := utf16 ''Hel'', chunk_type := None, operation := Some Append\<rparr>,
        c\<lparr>content := utf16 ''lo'', chunk_type := None, operation := Some Append\<rparr>,
        d\<lparr>content := [], chunk_type := Some MessageEnd, operation := Some Append\<rparr>] = Inr s' \<and>
      messages s' = [el] \<and> content_prop el = c0 @ utf16 ''Hello'' \<and> \<not> attr_streaming el) \<and>
   (\<forall>t m previous_content.
      chunk_type m \<noteq> Some MessageStart \<and> messages t \<noteq> [] \<and>
      attr_content (last (messages t)) = Some previous_content \<longrightarrow>
      (\<exists>t'. appendMessageChunk t m = Inr t' \<and> messages t' \<noteq> [] \<and>
           butlast (messages t') = butlast (messages t) \<and>
           content_prop (last (messages t')) =
             (if operation m = Some Append then previous_content @ content m else content m)))"
proof -
  have "\<exists>s' el. appendChunks (s\<lparr>messages := []\<rparr>)
       [a\<lparr>content := c0, role := Assistant, chunk_type := Some MessageStart\<rparr>,
        b\<lparr>content := utf16 ''Hel'', chunk_type := None, operation := Some Append\<rparr>,
        c\<lparr>content := utf16 ''lo'', chunk_type := None, operation := Some Append\<rparr>,
        d\<lparr>content := [], chunk_type := Some MessageEnd, operation := Some Append\<rparr>] = Inr s' \<and>
      messages s' = [el] \<and> content_prop el = c0 @ utf16 ''Hello'' \<and> \<not> attr_streaming el" for c0
    by (rule hello_stream)
  from this [of "[]"] this chunk_content show ?thesis
    by (simp only: append_Nil) blast
qed

theorem hello_chunks_witness:
  "messages awaiting_chat \<noteq> [] \<and>
   attr_content (last (messages awaiting_chat)) = Some [] \<and>
   (\<exists>t'. appendMessageChunk awaiting_chat (chunk (utf16 ''Hel'') None (Some Append)) = Inr t' \<and>
      messages t' \<noteq> [] \<and>
      butlast (messages t') = butlast (messages awaiting_chat) \<and>
      content_prop (last (messages t')) = utf16 ''Hel'') \<and>
   (\<exists>t'. appendMessageChunk awaiting_chat (chunk (utf16 ''Hel'') None None) = Inr t' \<and>
      messages t' \<noteq> [] \<and>
      butlast (messages t') = butlast (messages awaiting_chat) \<and>
      content_prop (last (messages t')) = utf16 ''Hel'')"
proof -
  have p: "messages awaiting_chat \<noteq> [] \<and>
      attr_content (last (messages awaiting_chat)) = Some []"
    by (simp add: messages_awaiting_chat createElement_loading_def)
  have q: "chunk_type (chunk (utf16 ''Hel'') None (Some Append)) \<noteq> Some MessageStart"
    "chunk_type (chunk (utf16 ''Hel'') None None) \<noteq> Some MessageStart"
    by (simp_all add: chunk_def)
  from hello_chunks [of awaiting_chat "chunk [] None None" "chunk [] None None"
      "chunk [] None None" "chunk [] None None"]
  have g: "\<And>m. chunk_type m \<noteq> Some MessageStart \<Longrightarrow>
      \<exists>t'. appendMessageChunk awaiting_chat m = Inr t' \<and> messages t' \<noteq> [] \<and>
        butlast (messages t') = butlast (messages awaiting_chat) \<and>
        content_prop (last (messages t')) =
          (if operation m = Some Append then [] @ content m else content m)"
    using p by blast
  show ?thesis
    using p g [OF q(1)] g [OF q(2)] by (simp add: chunk_def)
qed

subsection \<open>The start chunk\<close>

text \<open>
  C4, as the code has it. A \<^verbatim>\<open>message_start\<close> chunk takes a trailing empty message off,
  appends an element made from the chunk and marks it streaming. The element carries
  the chunk's content: the content of the tail is the content of the start chunk, empty
  only when the chunk's is. The operation of the chunk is not applied to it.
\<close>

theorem start_chunk_content:
  assumes "chunk_type m = Some MessageStart"
  shows "\<exists>s' el. appendMessageChunk s m = Inr s' \<and>
           messages s' = messages (removeLoadingMessage s) @ [el] \<and>
           attr_streaming el \<and> content_prop el = content m \<and> role_prop el = role m"
  using start_chunk [OF assms, of s] by auto

theorem start_chunk_content_witness:
  "chunk_type (chunk (utf16 ''Hi'') (Some MessageStart) (Some Append)) = Some MessageStart \<and>
   (\<exists>s' el. appendMessageChunk awaiting_chat (chunk (utf16 ''Hi'') (Some MessageStart) (Some Append)) =
        Inr s' \<and>
      messages s' = messages (removeLoadingMessage awaiting_chat) @ [el] \<and>
      attr_streaming el \<and> content_prop el = utf16 ''Hi'' \<and> role_prop el = Assistant)"
proof -
  have h: "chunk_type (chunk (utf16 ''Hi'') (Some MessageStart) (Some Append)) = Some MessageStart"
    by (simp add: chunk_def)
  show ?thesis
    using h start_chunk_content [OF h, of awaiting_chat] by (simp add: chunk_def)
qed

text \<open>
  The claim as the spec words it fails: a start chunk whose content is \<^verbatim>\<open>Hi\<close>, arriving
  at the empty transcript, leaves a streaming tail whose content is \<^verbatim>\<open>Hi\<close>, not empty.
\<close>

theorem start_chunk_content_counterexample:
  "\<not> isl (appendMessageChunk (fresh_chat []) (chunk (utf16 ''Hi'') (Some MessageStart) None)) \<and>
   content (chunk (utf16 ''Hi'') (Some MessageStart) None) \<noteq> [] \<and>
   map attr_streaming
     (messages (projr (appendMessageChunk (fresh_chat [])
        (chunk (utf16 ''Hi'') (Some MessageStart) None)))) = [True] \<and>
   map content_prop
     (messages (projr (appendMessageChunk (fresh_chat [])
        (chunk (utf16 ''Hi'') (Some MessageStart) None)))) = [utf16 ''Hi''] \<and>
   content_prop
     (last (messages (projr (appendMessageChunk (fresh_chat [])
        (chunk (utf16 ''Hi'') (Some MessageStart) None))))) \<noteq> []"
  by (simp add: appendMessageChunk_def chunk_def fresh_chat_def set_last_def
      message_element_def createElement_def new_chat_message_def appendMessage_def
      initMessage_def removeLoadingMessage_def set_disabled_def onInput_def valueIsEmpty_def
      trim_def content_prop_def Let_def)

subsection \<open>Sending the input\<close>

lemma sendInput_rest:
  assumes "\<not> valueIsEmpty s" and "\<not> disabled s"
  shows "disabled (sendInput f s) \<and>
         shiny_inputs (sendInput f s) = shiny_inputs s @ [(input_id s, TextValue (textarea_value s))] \<and>
         dispatched (sendInput f s) = dispatched s \<and>
         textarea_value (sendInput f s) = []"
  using assms
  by (simp add: Let_def textarea_focus_def onInputSent_def addLoadingMessage_def
      appendMessage_def initMessage_def finalizeMessage_def set_disabled_def onInput_def
      removeLoadingMessage_def case_list_if)

text \<open>
  A value is blank when \<^verbatim>\<open>trim\<close> leaves nothing of it, which is when all its code units
  are white space or line terminators.
\<close>

lemma trim_empty_iff: "trim v = [] \<longleftrightarrow> (\<forall>c\<in>set v. isWhiteSpace c)"
proof (cases "dropWhile isWhiteSpace v = []")
  case True
  then have "\<forall>c\<in>set v. isWhiteSpace c" by (simp add: dropWhile_eq_Nil_conv)
  moreover have "trim v = []" unfolding trim_def True by simp
  ultimately show ?thesis by simp
next
  case False
  then have "\<not> isWhiteSpace (hd (dropWhile isWhiteSpace v))"
    by (rule hd_dropWhile)
  then have "\<not> isWhiteSpace (last (rev (dropWhile isWhiteSpace v)))"
    using False by (simp add: last_rev)
  moreover have "rev (dropWhile isWhiteSpace v) \<noteq> []"
    using False by simp
  ultimately have "dropWhile isWhiteSpace (rev (dropWhile isWhiteSpace v)) \<noteq> []"
    by (metis dropWhile_eq_Nil_conv last_in_set)
  then have "trim v \<noteq> []"
    unfolding trim_def by (metis rev_is_Nil_conv)
  moreover have "\<not> (\<forall>c\<in>set v. isWhiteSpace c)"
    using False by (metis dropWhile_eq_Nil_conv)
  ultimately show ?thesis by blast
qed

lemma valueIsEmpty_iff: "valueIsEmpty s \<longleftrightarrow> (\<forall>c\<in>set (textarea_value s). isWhiteSpace c)"
  by (simp add: valueIsEmpty_def trim_empty_iff)

text \<open>
  C5. \<^verbatim>\<open>#sendInput\<close> with a value that is not blank, on an enabled input: the transcript
  gets a user message with the value as its content and then a loading placeholder
  (a trailing empty message is taken off before), the value goes to Shiny, the
  textarea is emptied and the input is disabled. On a disabled input, or with a blank
  value, the state of the widget, the log of what left it included, is what it was.
  Blank is what \<^verbatim>\<open>trim\<close> empties: the empty value and every value made of white space
  and line terminators only, those outside ASCII included.
\<close>

theorem sendInput_submits:
  "(\<not> valueIsEmpty s \<and> \<not> disabled s \<longrightarrow>
      (\<exists>el. messages (sendInput f s) =
               messages (removeLoadingMessage s) @ [el, createElement_loading] \<and>
             role_prop el = User \<and> content_prop el = textarea_value s) \<and>
      is_placeholder createElement_loading \<and>
      disabled (sendInput f s) \<and>
      textarea_value (sendInput f s) = [] \<and>
      shiny_inputs (sendInput f s) =
        shiny_inputs s @ [(input_id s, TextValue (textarea_value s))]) \<and>
   (valueIsEmpty s \<or> disabled s \<longrightarrow> sendInput f s = s)"
proof -
  have "sendInput f s = s" if "valueIsEmpty s \<or> disabled s"
    using that by auto
  moreover have "\<exists>el. messages (sendInput f s) =
               messages (removeLoadingMessage s) @ [el, createElement_loading] \<and>
             role_prop el = User \<and> content_prop el = textarea_value s"
    if "\<not> valueIsEmpty s \<and> \<not> disabled s"
    using that sendInput_messages [of s f]
    by (simp add: input_sent_detail_def del: sendInput.simps)
  ultimately show ?thesis
    using sendInput_rest [of s f] is_placeholder_loading by blast
qed

theorem sendInput_submits_witness:
  "\<not> valueIsEmpty typed_chat \<and> \<not> disabled typed_chat \<and>
   (\<exists>el. messages (sendInput True typed_chat) =
            messages (removeLoadingMessage typed_chat) @ [el, createElement_loading] \<and>
          role_prop el = User \<and> content_prop el = utf16 ''Hi'') \<and>
   disabled (sendInput True typed_chat) \<and>
   shiny_inputs (sendInput True typed_chat) = [(''chat_user_input'', TextValue (utf16 ''Hi''))] \<and>
   valueIsEmpty (fresh_chat []) \<and>
   sendInput True (fresh_chat []) = fresh_chat [] \<and>
   textarea_value blank_chat = [0x0020, 0x00A0, 0x3000, 0x2028, 0xFEFF, 0x000A] \<and>
   valueIsEmpty blank_chat \<and> \<not> disabled blank_chat \<and>
   sendInput True blank_chat = blank_chat \<and>
   disabled awaiting_chat \<and>
   sendInput True (awaiting_chat\<lparr>textarea_value := utf16 ''more''\<rparr>) =
     awaiting_chat\<lparr>textarea_value := utf16 ''more''\<rparr>"
proof -
  have e: "valueIsEmpty (fresh_chat [])"
    by (simp add: fresh_chat_def valueIsEmpty_def trim_def)
  have n: "textarea_value blank_chat = [0x0020, 0x00A0, 0x3000, 0x2028, 0xFEFF, 0x000A]"
    "\<not> disabled blank_chat"
    by (simp_all add: blank_chat_def onInput_def fresh_chat_def)
  have w: "valueIsEmpty blank_chat"
    by (simp add: valueIsEmpty_iff n isWhiteSpace_def)
  have v: "textarea_value typed_chat = utf16 ''Hi''" "shiny_inputs typed_chat = []"
    "input_id typed_chat = ''chat_user_input''"
    by (simp_all add: typed_chat_def fresh_chat_def)
  have d: "disabled awaiting_chat" "disabled (awaiting_chat\<lparr>textarea_value := utf16 ''more''\<rparr>)"
    using sendInput_rest [of typed_chat True] typed_chat_sends
    by (simp_all add: awaiting_chat_def del: sendInput.simps)
  show ?thesis
    using typed_chat_sends e v d n w sendInput_submits [of typed_chat True]
      sendInput_submits [of "fresh_chat []" True]
      sendInput_submits [of blank_chat True]
      sendInput_submits [of "awaiting_chat\<lparr>textarea_value := utf16 ''more''\<rparr>" True]
    by (simp del: sendInput.simps)
qed

subsection \<open>Suggestions\<close>

lemma getSuggestion_fill:
  "getSuggestion [fill_suggestion] = \<lparr>suggestion = Some (utf16 ''Tell me more''), submit = Some False\<rparr>"
  by (simp add: getSuggestion_def fill_suggestion_def closest_suggestion_def)

lemma getSuggestion_submit:
  "getSuggestion [submit_suggestion] = \<lparr>suggestion = Some (utf16 ''Plot it''), submit = Some True\<rparr>"
  by (simp add: getSuggestion_def submit_suggestion_def closest_suggestion_def)

text \<open>
  C6. An event on a suggestion, whose text is \<open>sg\<close> and whose own flag is \<open>own\<close>, ends
  in one call of \<^verbatim>\<open>setInputValue\<close> with the text: with the meta or the control key
  held the call submits, whatever the flag; with neither of them and the alt key held
  it does not submit; with no modifier the flag decides. The focus argument of the
  call is the negation of its submit argument. A click, and a key press of Enter or
  Space, are such events.
\<close>

theorem suggestion_modifiers:
  assumes "suggestion (getSuggestion (target e)) = Some sg"
    and "own = (submit (getSuggestion (target e)) = Some True)"
  shows "(metaKey e \<or> ctrlKey e \<longrightarrow>
            onInputSuggestionEvent s e = setInputValue s sg True (\<not> True)) \<and>
         (\<not> metaKey e \<and> \<not> ctrlKey e \<and> altKey e \<longrightarrow>
            onInputSuggestionEvent s e = setInputValue s sg False (\<not> False)) \<and>
         (\<not> metaKey e \<and> \<not> ctrlKey e \<and> \<not> altKey e \<longrightarrow>
            onInputSuggestionEvent s e = setInputValue s sg own (\<not> own)) \<and>
         onInputSuggestionClick s e = onInputSuggestionEvent s e \<and>
         (key e = ''Enter'' \<or> key e = '' '' \<longrightarrow>
            onInputSuggestionKeydown s e = onInputSuggestionEvent s e)"
  using assms
  by (simp add: onInputSuggestionEvent_def shouldSubmit_def onInputSuggestionClick_def
      onInputSuggestionKeydown_def Let_def)

theorem suggestion_modifiers_witness:
  "suggestion (getSuggestion (target (click_on fill_suggestion True False False))) =
     Some (utf16 ''Tell me more'') \<and>
   submit (getSuggestion (target (click_on fill_suggestion True False False))) = Some False \<and>
   onInputSuggestionClick (fresh_chat []) (click_on fill_suggestion True False False) =
     setInputValue (fresh_chat []) (utf16 ''Tell me more'') True False \<and>
   onInputSuggestionClick (fresh_chat []) (click_on fill_suggestion False True False) =
     setInputValue (fresh_chat []) (utf16 ''Tell me more'') True False \<and>
   submit (getSuggestion (target (click_on submit_suggestion False False True))) = Some True \<and>
   onInputSuggestionClick (fresh_chat []) (click_on submit_suggestion False False True) =
     setInputValue (fresh_chat []) (utf16 ''Plot it'') False True \<and>
   onInputSuggestionClick (fresh_chat []) (click_on fill_suggestion False False False) =
     setInputValue (fresh_chat []) (utf16 ''Tell me more'') False True \<and>
   onInputSuggestionClick (fresh_chat []) (click_on submit_suggestion False False False) =
     setInputValue (fresh_chat []) (utf16 ''Plot it'') True False \<and>
   key (enter_on fill_suggestion True False False) = ''Enter'' \<and>
   onInputSuggestionKeydown (fresh_chat []) (enter_on fill_suggestion True False False) =
     setInputValue (fresh_chat []) (utf16 ''Tell me more'') True False"
proof -
  have f: "\<And>a b c. suggestion (getSuggestion (target (click_on fill_suggestion a b c))) =
      Some (utf16 ''Tell me more'')"
    "\<And>a b c. submit (getSuggestion (target (click_on fill_suggestion a b c))) = Some False"
    "\<And>a b c. suggestion (getSuggestion (target (enter_on fill_suggestion a b c))) =
      Some (utf16 ''Tell me more'')"
    "\<And>a b c. submit (getSuggestion (target (enter_on fill_suggestion a b c))) = Some False"
    by (simp_all add: click_on_def enter_on_def getSuggestion_fill)
  have g: "\<And>a b c. suggestion (getSuggestion (target (click_on submit_suggestion a b c))) =
      Some (utf16 ''Plot it'')"
    "\<And>a b c. submit (getSuggestion (target (click_on submit_suggestion a b c))) = Some True"
    by (simp_all add: click_on_def getSuggestion_submit)
  have k: "\<And>el a b c. metaKey (click_on el a b c) = a \<and> ctrlKey (click_on el a b c) = b \<and>
      altKey (click_on el a b c) = c"
    "\<And>el a b c. metaKey (enter_on el a b c) = a \<and> ctrlKey (enter_on el a b c) = b \<and>
      altKey (enter_on el a b c) = c \<and> key (enter_on el a b c) = ''Enter''"
    by (simp_all add: click_on_def enter_on_def)
  show ?thesis
    using f g
      suggestion_modifiers [OF f(1) refl, of True False False "fresh_chat []"]
      suggestion_modifiers [OF f(1) refl, of False True False "fresh_chat []"]
      suggestion_modifiers [OF g(1) refl, of False False True "fresh_chat []"]
      suggestion_modifiers [OF f(1) refl, of False False False "fresh_chat []"]
      suggestion_modifiers [OF g(1) refl, of False False False "fresh_chat []"]
      suggestion_modifiers [OF f(3) refl, of True False False "fresh_chat []"]
    by (simp add: k del: setInputValue.simps)
qed

subsection \<open>Feedback\<close>

lemma toggle_feedback_other:
  assumes "i < length (messages s)" and "feedbackGiven (messages s ! i) \<noteq> Some fb"
  shows "toggle_feedback fb i s =
     s\<lparr>messages := (messages s)[i := (messages s ! i)\<lparr>feedbackGiven := Some fb\<rparr>],
       dispatched := dispatched s @
         [MessageFeedbackEvent
            \<lparr>messageIndex = int i, fe_content = content_prop (messages s ! i), fe_feedback = fb\<rparr>],
       shiny_inputs := shiny_inputs s @
         [(baseInputId s @ ''_message_feedback'',
           FeedbackValue
             \<lparr>messageIndex = int i, fe_content = content_prop (messages s ! i),
              fe_feedback = fb\<rparr>)]\<rparr>"
  using assms by (simp add: toggle_feedback_def Let_def dispatch_feedback_def baseInputId_def)

lemma toggle_feedback_same:
  assumes "i < length (messages s)" and "feedbackGiven (messages s ! i) = Some fb"
  shows "toggle_feedback fb i s =
     s\<lparr>messages := (messages s)[i := (messages s ! i)\<lparr>feedbackGiven := None\<rparr>]\<rparr>"
  using assms by (simp add: toggle_feedback_def Let_def dispatch_feedback_def)

lemma transcript_toggle_feedback: "transcript (toggle_feedback fb i s) = transcript s"
  by (auto simp add: toggle_feedback_def Let_def dispatch_feedback_def transcript_def
      map_update list_eq_iff_nth_eq nth_list_update)

lemma messages_answered_chat:
  "messages answered_chat = [message_element (fresh_chat []) (chunk (utf16 ''Hello'') None None)]"
  by (simp add: answered_chat_def onAppend_def messages_appendMessage
      messages_removeLoadingMessage fresh_chat_def)

text \<open>
  C7. On a message without feedback: a click on thumbs-up sets the feedback to positive
  and dispatches one feedback event, which the container forwards to Shiny; a second
  click on thumbs-up clears the feedback and neither dispatches nor forwards anything;
  a click on thumbs-down then sets the feedback to negative and dispatches one event.
  The events carry the position of the message and its content. The transcript, that
  is the messages without their feedback state, is the same after each click, as it is
  after any click on a thumb of any message.
\<close>

theorem feedback_toggles:
  assumes "i < length (messages s)" and "feedbackGiven (messages s ! i) = None"
  shows "let ev = (\<lambda>fb. \<lparr>messageIndex = int i, fe_content = content_prop (messages s ! i),
                        fe_feedback = fb\<rparr>);
             s1 = onThumbsUpClick i s;
             s2 = onThumbsUpClick i s1;
             s3 = onThumbsDownClick i s2
         in feedbackGiven (messages s1 ! i) = Some Positive \<and>
            dispatched s1 = dispatched s @ [MessageFeedbackEvent (ev Positive)] \<and>
            shiny_inputs s1 =
              shiny_inputs s @ [(baseInputId s @ ''_message_feedback'', FeedbackValue (ev Positive))] \<and>
            feedbackGiven (messages s2 ! i) = None \<and>
            dispatched s2 = dispatched s1 \<and>
            shiny_inputs s2 = shiny_inputs s1 \<and>
            feedbackGiven (messages s3 ! i) = Some Negative \<and>
            dispatched s3 = dispatched s2 @ [MessageFeedbackEvent (ev Negative)] \<and>
            shiny_inputs s3 =
              shiny_inputs s2 @ [(baseInputId s @ ''_message_feedback'', FeedbackValue (ev Negative))] \<and>
            transcript s1 = transcript s \<and> transcript s2 = transcript s \<and>
            transcript s3 = transcript s \<and>
            (\<forall>j t. transcript (onThumbsUpClick j t) = transcript t \<and>
                   transcript (onThumbsDownClick j t) = transcript t)"
proof -
  let ?s1 = "onThumbsUpClick i s"
  let ?s2 = "onThumbsUpClick i ?s1"
  let ?s3 = "onThumbsDownClick i ?s2"
  let ?ev = "\<lambda>fb. \<lparr>messageIndex = int i, fe_content = content_prop (messages s ! i),
                  fe_feedback = fb\<rparr>"
  have 1: "feedbackGiven (messages ?s1 ! i) = Some Positive"
    "length (messages ?s1) = length (messages s)"
    "dispatched ?s1 = dispatched s @ [MessageFeedbackEvent (?ev Positive)]"
    "shiny_inputs ?s1 =
       shiny_inputs s @ [(baseInputId s @ ''_message_feedback'', FeedbackValue (?ev Positive))]"
    "content_prop (messages ?s1 ! i) = content_prop (messages s ! i)"
    "baseInputId ?s1 = baseInputId s"
    using assms by (simp_all add: onThumbsUpClick_def toggle_feedback_other baseInputId_def)
  have 2: "feedbackGiven (messages ?s2 ! i) = None"
    "length (messages ?s2) = length (messages s)"
    "dispatched ?s2 = dispatched ?s1" "shiny_inputs ?s2 = shiny_inputs ?s1"
    "content_prop (messages ?s2 ! i) = content_prop (messages s ! i)"
    "baseInputId ?s2 = baseInputId s"
    using assms(1) 1 toggle_feedback_same [of i ?s1 Positive]
    by (simp_all add: onThumbsUpClick_def baseInputId_def)
  have 3: "feedbackGiven (messages ?s3 ! i) = Some Negative"
    "dispatched ?s3 = dispatched ?s2 @ [MessageFeedbackEvent (?ev Negative)]"
    "shiny_inputs ?s3 =
       shiny_inputs ?s2 @ [(baseInputId s @ ''_message_feedback'', FeedbackValue (?ev Negative))]"
    using assms(1) 2 toggle_feedback_other [of i ?s2 Negative]
    by (simp_all add: onThumbsDownClick_def)
  show ?thesis
    using 1 2 3
    by (simp add: Let_def transcript_toggle_feedback onThumbsUpClick_def onThumbsDownClick_def)
qed

theorem feedback_toggles_witness:
  "0 < length (messages answered_chat) \<and>
   feedbackGiven (messages answered_chat ! 0) = None \<and>
   feedbackGiven (messages (onThumbsUpClick 0 answered_chat) ! 0) = Some Positive \<and>
   dispatched (onThumbsUpClick 0 answered_chat) =
     [MessageFeedbackEvent \<lparr>messageIndex = 0, fe_content = utf16 ''Hello'', fe_feedback = Positive\<rparr>] \<and>
   shiny_inputs (onThumbsUpClick 0 answered_chat) =
     [(''chat_message_feedback'',
       FeedbackValue \<lparr>messageIndex = 0, fe_content = utf16 ''Hello'', fe_feedback = Positive\<rparr>)] \<and>
   feedbackGiven (messages (onThumbsUpClick 0 (onThumbsUpClick 0 answered_chat)) ! 0) = None \<and>
   dispatched (onThumbsUpClick 0 (onThumbsUpClick 0 answered_chat)) =
     dispatched (onThumbsUpClick 0 answered_chat) \<and>
   feedbackGiven
     (messages (onThumbsDownClick 0 (onThumbsUpClick 0 (onThumbsUpClick 0 answered_chat))) ! 0) =
     Some Negative \<and>
   dispatched (onThumbsDownClick 0 (onThumbsUpClick 0 (onThumbsUpClick 0 answered_chat))) =
     dispatched (onThumbsUpClick 0 (onThumbsUpClick 0 answered_chat)) @
     [MessageFeedbackEvent \<lparr>messageIndex = 0, fe_content = utf16 ''Hello'', fe_feedback = Negative\<rparr>] \<and>
   transcript (onThumbsDownClick 0 (onThumbsUpClick 0 (onThumbsUpClick 0 answered_chat))) =
     transcript answered_chat"
proof -
  have h: "0 < length (messages answered_chat)"
    "feedbackGiven (messages answered_chat ! 0) = None"
    by (simp_all add: messages_answered_chat message_element_def createElement_def
        new_chat_message_def)
  have c: "content_prop (messages answered_chat ! 0) = utf16 ''Hello''"
    by (simp add: messages_answered_chat chunk_def)
  have o: "dispatched answered_chat = []" "shiny_inputs answered_chat = []"
    "baseInputId answered_chat = ''chat''"
    by (simp_all add: answered_chat_def onAppend_def appendMessage_def initMessage_def
        finalizeMessage_def set_disabled_def onInput_def removeLoadingMessage_def
        fresh_chat_def baseInputId_def Let_def)
  show ?thesis
    using h feedback_toggles [OF h] by (simp add: Let_def c o)
qed

subsection \<open>The text path and the capture\<close>

lemma last_dropWhile_nonempty: "dropWhile P xs \<noteq> [] \<Longrightarrow> last (dropWhile P xs) = last xs"
  by (induction xs) (auto split: if_splits)

lemma dropWhile_rev_trimmed:
  "dropWhile P (rev (dropWhile P (rev (dropWhile P s)))) =
     rev (dropWhile P (rev (dropWhile P s)))"
proof (cases "dropWhile P (rev (dropWhile P s)) = []")
  case True
  show ?thesis unfolding True by simp
next
  case False
  let ?a = "dropWhile P s"
  let ?b = "dropWhile P (rev ?a)"
  have a: "?a \<noteq> []"
  proof
    assume "?a = []"
    then have "?b = []" by (simp only: rev.simps dropWhile.simps)
    with False show False by contradiction
  qed
  have "hd (rev ?b) = last ?b" using False by (simp add: hd_rev)
  also have "\<dots> = last (rev ?a)" using False by (rule last_dropWhile_nonempty)
  also have "\<dots> = hd ?a" using a by (simp add: last_rev)
  finally have "\<not> P (hd (rev ?b))" using a hd_dropWhile [of P s] by simp
  then show ?thesis using False by (simp add: dropWhile_eq_self_iff)
qed

lemma trim_trim: "trim (trim s) = trim s"
  by (simp add: trim_def dropWhile_rev_trimmed)

lemma untouched_sendInput: "untouched_by_text (sendInput f s) = untouched_by_text s"
  by (simp add: untouched_by_text_def Let_def textarea_focus_def onInputSent_def
      addLoadingMessage_def appendMessage_def initMessage_def finalizeMessage_def
      set_disabled_def onInput_def removeLoadingMessage_def case_list_if)

lemma untouched_setInputValue:
  "untouched_by_text (setInputValue s v b f) = untouched_by_text s"
proof (cases b)
  case False
  then show ?thesis by (simp add: untouched_by_text_def Let_def textarea_focus_def onInput_def)
next
  case True
  have "untouched_by_text (sendInput False (onInput (s\<lparr>textarea_value := v\<rparr>))) =
      untouched_by_text s"
    by (simp only: untouched_sendInput) (simp add: untouched_by_text_def onInput_def)
  then show ?thesis using True
    by (simp add: untouched_by_text_def Let_def textarea_focus_def onInput_def
        del: sendInput.simps)
qed

lemma setInputValue_submit:
  assumes "trim v \<noteq> []" and "\<not> disabled s"
  shows "shiny_inputs (setInputValue s v True f) = shiny_inputs s @ [(input_id s, TextValue v)]"
    and "messages (setInputValue s v True f) =
           messages (removeLoadingMessage s) @
           [message_element s (input_sent_detail v), createElement_loading]"
proof -
  let ?s1 = "onInput (s\<lparr>textarea_value := v\<rparr>)"
  have s1: "\<not> valueIsEmpty ?s1" "\<not> disabled ?s1" "textarea_value ?s1 = v"
    "shiny_inputs ?s1 = shiny_inputs s" "input_id ?s1 = input_id s"
    "messages (removeLoadingMessage ?s1) = messages (removeLoadingMessage s)"
    "\<And>m. message_element ?s1 m = message_element s m"
    using assms
    by (simp_all add: onInput_def valueIsEmpty_def messages_removeLoadingMessage
        message_element_def)
  have a: "shiny_inputs (sendInput False ?s1) = shiny_inputs s @ [(input_id s, TextValue v)]"
    using sendInput_rest [OF s1(1,2), of False] s1 by (simp del: sendInput.simps)
  have b: "messages (sendInput False ?s1) =
      messages (removeLoadingMessage s) @
      [message_element s (input_sent_detail v), createElement_loading]"
    using sendInput_messages [OF s1(1,2), of False] s1 by (simp del: sendInput.simps)
  show "shiny_inputs (setInputValue s v True f) = shiny_inputs s @ [(input_id s, TextValue v)]"
    using a by (simp add: Let_def textarea_focus_def onInput_def del: sendInput.simps)
  show "messages (setInputValue s v True f) =
      messages (removeLoadingMessage s) @
      [message_element s (input_sent_detail v), createElement_loading]"
    using b by (simp add: Let_def textarea_focus_def onInput_def del: sendInput.simps)
qed

lemma setInputValue_disabled:
  assumes "disabled s"
  shows "shiny_inputs (setInputValue s v b f) = shiny_inputs s"
    and "messages (setInputValue s v b f) = messages s"
  using assms by (cases b; simp add: Let_def textarea_focus_def onInput_def)+

lemma untouched_fields:
  assumes "untouched_by_text s' = untouched_by_text s"
  shows "dispatched s' = dispatched s" and "speechRecognition s' = speechRecognition s"
    and "isRecording s' = isRecording s" and "mediaRecorder s' = mediaRecorder s"
    and "input_id s' = input_id s" and "audioChunks s' = audioChunks s"
    and "recorders s' = recorders s"
  using assms by (simp_all add: untouched_by_text_def)

lemma listening_chat_eq:
  "listening_chat =
     (fresh_chat ''transcribe'')
       \<lparr>speechRecognition :=
          Some \<lparr>sr_continuous = True, sr_interimResults = True, sr_lang = ''en-US''\<rparr>,
        recognition_starts := 1, isRecording := True, recordingStartTime := 1000\<rparr>"
  by (simp add: listening_chat_def micButton_click_def audioInputEnabled_def
      toggleRecording_def isTranscribeMode_def startTranscription_def a_platform_def
      fresh_chat_def Let_def)

lemma transcribing_chat_eq:
  "transcribing_chat =
     listening_chat\<lparr>finalTranscript := utf16 ''hello '', transcribedText := utf16 ''hello world''\<rparr>"
  by (simp add: transcribing_chat_def listening_chat_eq onresult_def hello_world_event_def
      fresh_chat_def trim_def isWhiteSpace_def)

lemma recording_chat_eq:
  "recording_chat =
     (fresh_chat ''raw'')
       \<lparr>recorders := [webm_recorder], mediaRecorder := Some 0, isRecording := True,
        recordingStartTime := 1000, recordingTimer := True, intervals := 1\<rparr>"
  by (simp add: recording_chat_def micButton_click_def audioInputEnabled_def
      toggleRecording_def isTranscribeMode_def startRecording_def getUserMedia_settled_def
      startRecording_resumed_def a_platform_def fresh_chat_def webm_recorder_def Let_def)

subsection \<open>Stopping a transcription\<close>

lemma stop_transcription_path:
  assumes "speechRecognition s \<noteq> None"
  shows "let text = trim (transcribedText s); s' = stopRecording False now s
         in (text \<noteq> [] \<longrightarrow>
               s' = (setInputValue (s\<lparr>speechRecognition := None\<rparr>) text True True)
                      \<lparr>isRecording := False, transcribedText := []\<rparr>) \<and>
            (text \<noteq> [] \<and> \<not> disabled s \<longrightarrow>
               shiny_inputs s' = shiny_inputs s @ [(input_id s, TextValue text)] \<and>
               (\<exists>el. messages s' =
                        messages (removeLoadingMessage s) @ [el, createElement_loading] \<and>
                      role_prop el = User \<and> content_prop el = text)) \<and>
            (text = [] \<longrightarrow>
               s' = s\<lparr>speechRecognition := None, isRecording := False, transcribedText := []\<rparr>) \<and>
            dispatched s' = dispatched s \<and>
            speechRecognition s' = None \<and> \<not> isRecording s' \<and> \<not> capturing s'"
proof -
  let ?text = "trim (transcribedText s)"
  let ?s0 = "s\<lparr>speechRecognition := None\<rparr>"
  let ?sub = "setInputValue ?s0 ?text True True"
  let ?s' = "stopRecording False now s"
  obtain r where r: "speechRecognition s = Some r" using assms by auto
  have empty: "?s' = s\<lparr>speechRecognition := None, isRecording := False, transcribedText := []\<rparr>"
    if "?text = []"
    using that r by (simp add: stopRecording_def Let_def del: setInputValue.simps)
  have full: "?s' = ?sub\<lparr>isRecording := False, transcribedText := []\<rparr>" if "?text \<noteq> []"
    using that r by (simp add: stopRecording_def Let_def del: setInputValue.simps)
  have u: "untouched_by_text ?sub = untouched_by_text ?s0"
    by (rule untouched_setInputValue)
  have d: "dispatched ?s' = dispatched s \<and> speechRecognition ?s' = None \<and> \<not> isRecording ?s'"
    using empty full untouched_fields [OF u] by (cases "?text = []") simp_all
  have sent: "shiny_inputs ?s' = shiny_inputs s @ [(input_id s, TextValue ?text)] \<and>
      (\<exists>el. messages ?s' = messages (removeLoadingMessage s) @ [el, createElement_loading] \<and>
         role_prop el = User \<and> content_prop el = ?text)"
    if "?text \<noteq> []" "\<not> disabled s"
  proof -
    have t: "trim ?text \<noteq> []" using that(1) by (simp add: trim_trim)
    have e: "\<not> disabled ?s0" using that(2) by simp
    have m: "messages (removeLoadingMessage ?s0) = messages (removeLoadingMessage s)"
      by (simp add: messages_removeLoadingMessage)
    show ?thesis
      using full [OF that(1)] setInputValue_submit [OF t e, of True] m
      by (simp add: input_sent_detail_def del: setInputValue.simps)
  qed
  show ?thesis
    unfolding Let_def using empty full sent d
    by (simp add: capturing_def del: setInputValue.simps)
qed

text \<open>
  C8. A click on the microphone button while a transcription is under way. When the
  input is disabled so is the button, and nothing happens. Otherwise the click is
  \<^verbatim>\<open>#stopRecording(false)\<close>: when the displayed text, trimmed, is not empty it goes
  through \<^verbatim>\<open>setInputValue\<close> with \<^verbatim>\<open>submit\<close>, which sends exactly that string to Shiny
  as the value of the input and appends the user turn with it; when it is empty only
  the session ends. In both cases no event is dispatched, so no audio input, and the
  session is gone: no recogniser, the flag cleared.
\<close>

theorem stop_transcription:
  assumes "speechRecognition s \<noteq> None" and "isRecording s" and "audioInputEnabled s"
  shows "let text = trim (transcribedText s); s' = micButton_click p now s
         in (disabled s \<longrightarrow> s' = s) \<and>
            (\<not> disabled s \<longrightarrow>
               s' = stopRecording False now s \<and>
               (text \<noteq> [] \<longrightarrow>
                  s' = (setInputValue (s\<lparr>speechRecognition := None\<rparr>) text True True)
                         \<lparr>isRecording := False, transcribedText := []\<rparr> \<and>
                  shiny_inputs s' = shiny_inputs s @ [(input_id s, TextValue text)] \<and>
                  (\<exists>el. messages s' =
                           messages (removeLoadingMessage s) @ [el, createElement_loading] \<and>
                         role_prop el = User \<and> content_prop el = text)) \<and>
               (text = [] \<longrightarrow>
                  s' = s\<lparr>speechRecognition := None, isRecording := False,
                         transcribedText := []\<rparr>) \<and>
               dispatched s' = dispatched s \<and>
               speechRecognition s' = None \<and> \<not> isRecording s' \<and> \<not> capturing s')"
proof (cases "disabled s")
  case True
  then show ?thesis by (simp add: micButton_click_def Let_def)
next
  case False
  then have "micButton_click p now s = stopRecording False now s"
    using assms by (simp add: micButton_click_def toggleRecording_def)
  then show ?thesis
    using False stop_transcription_path [OF assms(1), of now]
    unfolding Let_def by metis
qed

theorem stop_transcription_witness:
  "speechRecognition transcribing_chat \<noteq> None \<and> isRecording transcribing_chat \<and>
   audioInputEnabled transcribing_chat \<and> \<not> disabled transcribing_chat \<and>
   trim (transcribedText transcribing_chat) = utf16 ''hello world'' \<and>
   shiny_inputs (micButton_click a_platform 5000 transcribing_chat) =
     [(''chat_user_input'', TextValue (utf16 ''hello world''))] \<and>
   dispatched (micButton_click a_platform 5000 transcribing_chat) = [] \<and>
   speechRecognition (micButton_click a_platform 5000 transcribing_chat) = None \<and>
   \<not> isRecording (micButton_click a_platform 5000 transcribing_chat) \<and>
   trim (transcribedText listening_chat) = [] \<and>
   micButton_click a_platform 5000 listening_chat =
     listening_chat\<lparr>speechRecognition := None, isRecording := False, transcribedText := []\<rparr> \<and>
   disabled (transcribing_chat\<lparr>disabled := True\<rparr>) \<and>
   micButton_click a_platform 5000 (transcribing_chat\<lparr>disabled := True\<rparr>) =
     transcribing_chat\<lparr>disabled := True\<rparr>"
proof -
  have l: "speechRecognition listening_chat \<noteq> None" "isRecording listening_chat"
    "audioInputEnabled listening_chat" "\<not> disabled listening_chat"
    "trim (transcribedText listening_chat) = []"
    by (simp_all add: listening_chat_eq fresh_chat_def audioInputEnabled_def trim_def)
  have h: "speechRecognition transcribing_chat \<noteq> None" "isRecording transcribing_chat"
    "audioInputEnabled transcribing_chat" "\<not> disabled transcribing_chat"
    "trim (transcribedText transcribing_chat) = utf16 ''hello world''"
    "shiny_inputs transcribing_chat = []" "dispatched transcribing_chat = []"
    "input_id transcribing_chat = ''chat_user_input''"
    by (simp_all add: transcribing_chat_eq listening_chat_eq fresh_chat_def
        audioInputEnabled_def trim_def isWhiteSpace_def)
  have k: "speechRecognition (transcribing_chat\<lparr>disabled := True\<rparr>) \<noteq> None"
    "isRecording (transcribing_chat\<lparr>disabled := True\<rparr>)"
    "audioInputEnabled (transcribing_chat\<lparr>disabled := True\<rparr>)"
    using h by (simp_all add: audioInputEnabled_def)
  have d: "disabled (transcribing_chat\<lparr>disabled := True\<rparr>)" by simp
  have ne: "trim (transcribedText transcribing_chat) \<noteq> []"
    using h(5) by simp
  from stop_transcription [OF h(1,2,3), of a_platform 5000] h(4,5) ne
  have a: "shiny_inputs (micButton_click a_platform 5000 transcribing_chat) =
      shiny_inputs transcribing_chat @ [(input_id transcribing_chat, TextValue (utf16 ''hello world''))]"
    "dispatched (micButton_click a_platform 5000 transcribing_chat) =
      dispatched transcribing_chat"
    "speechRecognition (micButton_click a_platform 5000 transcribing_chat) = None"
    "\<not> isRecording (micButton_click a_platform 5000 transcribing_chat)"
    unfolding Let_def by metis+
  from stop_transcription [OF l(1,2,3), of a_platform 5000] l(4,5)
  have b: "micButton_click a_platform 5000 listening_chat =
      listening_chat\<lparr>speechRecognition := None, isRecording := False, transcribedText := []\<rparr>"
    unfolding Let_def by metis
  from stop_transcription [OF k, of a_platform 5000] d
  have c: "micButton_click a_platform 5000 (transcribing_chat\<lparr>disabled := True\<rparr>) =
      transcribing_chat\<lparr>disabled := True\<rparr>"
    unfolding Let_def by metis
  show ?thesis
    using l h a b c d by (simp del: setInputValue.simps)
qed

subsection \<open>Teardown during a capture\<close>
















text \<open>The three clicks in raw mode, step by step.\<close>

lemma stopped_chat_eq:
  "stopped_chat =
     recording_chat
       \<lparr>recorders := [webm_recorder\<lparr>onstop := ReleaseAndSend 3, rec_state := Stopping\<rparr>],
        isRecording := False, recordingTimer := False, intervals := 0\<rparr>"
  by (simp add: stopped_chat_def recording_chat_eq micButton_click_def audioInputEnabled_def
      toggleRecording_def stopRecording_def field_recorder_def recorder_stop_def fresh_chat_def
      webm_recorder_def Let_def)

lemma recording_again_chat_eq:
  "recording_again_chat =
     stopped_chat
       \<lparr>recorders :=
          [webm_recorder\<lparr>onstop := ReleaseAndSend 3, rec_state := Stopping\<rparr>, webm_recorder],
        mediaRecorder := Some 1, isRecording := True, recordingStartTime := 5100,
        recordingTimer := True, intervals := 1\<rparr>"
  by (simp add: recording_again_chat_def stopped_chat_eq recording_chat_eq micButton_click_def
      audioInputEnabled_def toggleRecording_def isTranscribeMode_def startRecording_def
      getUserMedia_settled_def startRecording_resumed_def a_platform_def fresh_chat_def
      webm_recorder_def Let_def)

lemma teardown_recording_again:
  "disconnectedCallback 6000 recording_again_chat =
     recording_again_chat
       \<lparr>recorders :=
          [webm_recorder\<lparr>onstop := ReleaseAndSend 3, rec_state := Stopping\<rparr>,
           webm_recorder\<lparr>rec_state := Stopping\<rparr>],
        isRecording := False, recordingTimer := False, intervals := 0\<rparr>"
  by (simp add: disconnectedCallback_def recording_again_chat_eq stopped_chat_eq
      recording_chat_eq stopRecording_def field_recorder_def recorder_stop_def fresh_chat_def
      webm_recorder_def Let_def)


text \<open>
  The buffer is the one of the widget, not of a recorder. When the recorder of the
  cancelled recording delivers its data before the \<^verbatim>\<open>stop\<close> event of the earlier
  recorder comes, the handoff of the earlier recording takes that data.
\<close>

lemma handoff_takes_buffer:
  "dispatched
     (fire_all a_platform (disconnectedCallback 6000 recording_again_chat)
        [(DataAvailable 1 other_audio, 6001), (DataAvailable 0 no_audio, 6002),
         (RecorderStop 0, 6003)]) =
     [AudioInputEvent
        \<lparr>audio = [31, 67, 182], format = ''audio/webm'', duration = 3, size_bytes = 3\<rparr>]"
  unfolding teardown_recording_again
  by (simp add: recording_again_chat_eq stopped_chat_eq
      recording_chat_eq fresh_chat_def webm_recorder_def other_audio_def no_audio_def
      field_recorder_def fire_all_def ondataavailable_def fire_onstop_def stop_tracks_def
      sendAudioData_def new_Blob_def blob_size_def Let_def)



subsection \<open>Stopping a recording\<close>

lemma fire_all_deliveries:
  assumes "i < length (recorders s)" and "rec_state (recorders s ! i) \<noteq> Inactive"
  shows "fire_all p s (deliveries i ds t) =
           s\<lparr>audioChunks := audioChunks s @ filter (\<lambda>d. blob_size d > 0) ds\<rparr>"
  using assms unfolding fire_all_def deliveries_def
  by (induction ds arbitrary: s) (simp_all add: ondataavailable_def)

text \<open>
  C10. A raw recording is stopped, not cancelled; its recorder then delivers its data
  and fires its \<^verbatim>\<open>stop\<close> event. The chunk list at that event is the list at the stop
  followed by the delivered blobs that are not empty. When it is empty, nothing is
  dispatched and nothing is sent to Shiny. When it is not, one \<^verbatim>\<open>shiny-chat-audio-input\<close>
  event is dispatched and one value is sent, with the bytes of the chunks, the
  encoding of the recorder, the duration taken at the stop and the size of the payload.
\<close>

theorem stop_recording_handoff:
  assumes "speechRecognition s = None" and "isRecording s"
    and "field_recorder s = Some (i, r)" and "rec_state r = Recording"
  shows "let s1 = stopRecording False now s;
             s2 = fire_all p s1 (deliveries i ds t);
             s3 = fire p s2 (RecorderStop i, t');
             fmt = or_else (Some (mimeType r)) ''audio/webm'';
             payload = new_Blob (audioChunks s2) fmt;
             audioData = \<lparr>audio = blob_bytes payload, format = fmt,
                          duration = of_int (now - recordingStartTime s) / 1000,
                          size_bytes = blob_size payload\<rparr>
         in audioChunks s2 = audioChunks s @ filter (\<lambda>d. blob_size d > 0) ds \<and>
            (audioChunks s2 = [] \<longrightarrow>
               dispatched s3 = dispatched s \<and> shiny_inputs s3 = shiny_inputs s) \<and>
            (audioChunks s2 \<noteq> [] \<longrightarrow>
               dispatched s3 = dispatched s @ [AudioInputEvent audioData] \<and>
               shiny_inputs s3 =
                 shiny_inputs s @ [(input_id s @ ''_audio'', AudioValue audioData)]) \<and>
            \<not> capturing s3 \<and> audioChunks s3 = []"
proof -
  let ?d = "of_int (now - recordingStartTime s) / 1000 :: rat"
  let ?s0 = "if recordingTimer s
             then s\<lparr>recordingTimer := False, intervals := intervals s - 1\<rparr> else s"
  let ?s1 = "stopRecording False now s"
  let ?s2 = "fire_all p ?s1 (deliveries i ds t)"
  have i: "i < length (recorders s)" "r = recorders s ! i" "mediaRecorder s = Some i"
    using assms(3) by (auto simp: field_recorder_def split: option.splits if_splits)
  have s0: "recorders ?s0 = recorders s" "audioChunks ?s0 = audioChunks s"
    "dispatched ?s0 = dispatched s" "shiny_inputs ?s0 = shiny_inputs s"
    "input_id ?s0 = input_id s" "mediaRecorder ?s0 = mediaRecorder s"
    "recordingStartTime ?s0 = recordingStartTime s"
    by simp_all
  have s1: "?s1 =
      ?s0\<lparr>recorders := (recorders s)[i := r\<lparr>onstop := ReleaseAndSend ?d, rec_state := Stopping\<rparr>],
          isRecording := False\<rparr>"
    using assms by (simp add: stopRecording_def Let_def recorder_stop_def)
  have l: "i < length (recorders ?s1)" "rec_state (recorders ?s1 ! i) \<noteq> Inactive"
    using i(1) by (simp_all add: s1)
  have s2: "?s2 = ?s1\<lparr>audioChunks := audioChunks s @ filter (\<lambda>d. blob_size d > 0) ds\<rparr>"
    using fire_all_deliveries [OF l, of p ds t] by (simp add: s1)
  show ?thesis
    unfolding Let_def s2
    using i
    by (simp add: s1 fire_onstop_def stop_tracks_def field_recorder_def sendAudioData_def
        Let_def capturing_def)
qed

theorem stop_recording_handoff_witness:
  "speechRecognition recording_chat = None \<and> isRecording recording_chat \<and>
   field_recorder recording_chat = Some (0, webm_recorder) \<and> rec_state webm_recorder = Recording \<and>
   audioChunks
     (fire_all a_platform (stopRecording False 4000 recording_chat) (deliveries 0 [no_audio] 4001)) =
     [] \<and>
   dispatched
     (fire a_platform
        (fire_all a_platform (stopRecording False 4000 recording_chat)
           (deliveries 0 [no_audio] 4001))
        (RecorderStop 0, 4002)) = [] \<and>
   shiny_inputs
     (fire a_platform
        (fire_all a_platform (stopRecording False 4000 recording_chat)
           (deliveries 0 [no_audio] 4001))
        (RecorderStop 0, 4002)) = [] \<and>
   audioChunks
     (fire_all a_platform (stopRecording False 4000 recording_chat)
        (deliveries 0 [no_audio, some_audio] 4001)) =
     [some_audio] \<and>
   dispatched
     (fire a_platform
        (fire_all a_platform (stopRecording False 4000 recording_chat)
           (deliveries 0 [no_audio, some_audio] 4001))
        (RecorderStop 0, 4002)) =
     [AudioInputEvent
        \<lparr>audio = [26, 69, 223, 163], format = ''audio/webm'', duration = 3, size_bytes = 4\<rparr>] \<and>
   shiny_inputs
     (fire a_platform
        (fire_all a_platform (stopRecording False 4000 recording_chat)
           (deliveries 0 [no_audio, some_audio] 4001))
        (RecorderStop 0, 4002)) =
     [(''chat_user_input_audio'',
       AudioValue
         \<lparr>audio = [26, 69, 223, 163], format = ''audio/webm'', duration = 3, size_bytes = 4\<rparr>)]"
proof -
  have h: "speechRecognition recording_chat = None" "isRecording recording_chat"
    "field_recorder recording_chat = Some (0, webm_recorder)" "rec_state webm_recorder = Recording"
    by (simp_all add: recording_chat_eq fresh_chat_def webm_recorder_def field_recorder_def)
  have v: "audioChunks recording_chat = []" "dispatched recording_chat = []"
    "shiny_inputs recording_chat = []" "input_id recording_chat = ''chat_user_input''"
    "recordingStartTime recording_chat = 1000" "mimeType webm_recorder = ''audio/webm''"
    by (simp_all add: recording_chat_eq fresh_chat_def webm_recorder_def)
  have b: "blob_bytes no_audio = []" "blob_bytes some_audio = [26, 69, 223, 163]"
    by (simp_all add: no_audio_def some_audio_def)
  show ?thesis
    using h
      stop_recording_handoff [OF h, of 4000 a_platform "[no_audio]" 4001 4002]
      stop_recording_handoff [OF h, of 4000 a_platform "[no_audio, some_audio]" 4001 4002]
    by (simp add: Let_def v b new_Blob_def blob_size_def)
qed

end
